theory Spec2Isabelle
  imports Complex_Main
begin

text \<open>
  A model of the two servers of the repository: the stdio server (\<open>src/unnamed/part_000\<close>,
  class \<open>PuppeteerMCPServer\<close>) and the HTTP server (\<open>src/src/http-server.ts\<close>, class
  \<open>PuppeteerHTTPMCPServer\<close>). The schemas, \<open>ensureBrowserAndPage\<close>, the page operations,
  \<open>closeBrowser\<close> and the call handler read the same in both files and are modelled once;
  \<open>launchBrowser\<close> and the list handler are modelled per server. Every definition keeps the
  name of the source function it follows; an exception of the source is the left summand
  of the result, and the fields \<open>this.browser\<close> and \<open>this.page\<close> are passed in and
  returned as a record.
\<close>

section \<open>Values exchanged with the caller\<close>

text \<open>
  Tool arguments arrive as parsed JSON. The protocol layer hands the handler either no
  argument object at all (\<open>undefined\<close>) or an object; an object is a list of key/value pairs
  read with \<open>map_of\<close>. A property that is absent reads as \<open>undefined\<close>, modelled as
  \<open>None\<close> of type \<open>json option\<close>. JSON carries neither NaN nor infinities, so a number is a
  rational.
\<close>

datatype json =
    JNull
  | JBool bool
  | JNum rat
  | JStr string
  | JArr "json list"
  | JObj "(string \<times> json) list"

type_synonym args = "(string \<times> json) list option"

type_synonym handle = nat

type_synonym bytes = "nat list"

text \<open>JavaScript truthiness of a value that may be \<open>undefined\<close>.\<close>

fun truthy :: "json option \<Rightarrow> bool" where
  "truthy None = False"
| "truthy (Some JNull) = False"
| "truthy (Some (JBool b)) = b"
| "truthy (Some (JNum n)) = (n \<noteq> 0)"
| "truthy (Some (JStr s)) = (s \<noteq> [])"
| "truthy (Some (JArr xs)) = True"
| "truthy (Some (JObj kvs)) = True"

text \<open>The operator \<open>a ?? d\<close>: \<open>d\<close> when \<open>a\<close> is \<open>undefined\<close> or \<open>null\<close>.\<close>

fun nullish_or :: "json option \<Rightarrow> json \<Rightarrow> json" where
  "nullish_or None d = d"
| "nullish_or (Some JNull) d = d"
| "nullish_or (Some v) d = v"

text \<open>The operator \<open>a || d\<close>: \<open>a\<close> when it is truthy, \<open>d\<close> otherwise.\<close>

fun falsy_or :: "json option \<Rightarrow> json \<Rightarrow> json" where
  "falsy_or None d = d"
| "falsy_or (Some v) d = (if truthy (Some v) then v else d)"

text \<open>
  Reading a property \<open>v.k\<close> of a truthy value: an object yields the stored value, every
  other truthy value (a string, a number, \<open>true\<close>, an array) yields \<open>undefined\<close> for the
  keys \<open>width\<close> and \<open>height\<close> read by the source.
\<close>

fun get_prop :: "json \<Rightarrow> string \<Rightarrow> json option" where
  "get_prop (JObj kvs) k = map_of kvs k"
| "get_prop v k = None"

text \<open>How a boolean prints inside a template literal.\<close>

definition show_bool :: "bool \<Rightarrow> string" where
  "show_bool b = (if b then ''true'' else ''false'')"

text \<open>Content items of a response envelope.\<close>

datatype content =
    Text string
  | Image string string

section \<open>Thrown values\<close>

text \<open>
  The schema library reports a failed parse as a list of issues, each with a code and the
  path of the offending field. A thrown value is an \<open>Error\<close> instance with a message, the
  schema library's error (also an \<open>Error\<close> instance) or any other value. Of a value
  that is not an \<open>Error\<close> the model keeps what \<open>String(value)\<close> does: it yields a string
  (\<open>NonError\<close>), or the conversion itself throws (\<open>Unprintable\<close>, with what it throws), as
  it does for an object without a usable \<open>toString\<close>.
\<close>

datatype zod_code = invalid_type | invalid_string | invalid_enum_value | too_small | too_big

datatype zod_issue = ZodIssue zod_code "string list"

datatype thrown =
    ErrorObj string
  | ZodError "zod_issue list"
  | NonError string
  | Unprintable thrown

section \<open>Library functions taken as parameters\<close>

text \<open>
  Four functions belong to libraries outside the repository and are parameters of the
  model: whether a string parses as a URL (\<open>new URL(s)\<close> does not throw), the message of
  the schema library's error, base64 encoding, and \<open>JSON.stringify(v, null, 2)\<close>.
\<close>

record lib =
  url_ok :: "string \<Rightarrow> bool"
  zod_message :: "zod_issue list \<Rightarrow> string"
  base64 :: "bytes \<Rightarrow> string"
  json_stringify :: "json \<Rightarrow> string"

text \<open>
  \<open>error instanceof Error ? error.message : String(error)\<close>, evaluated inside the \<open>catch\<close>
  block: it yields the message, or throws when \<open>String(error)\<close> throws.
\<close>

fun message :: "lib \<Rightarrow> thrown \<Rightarrow> thrown + string" where
  "message L (ErrorObj m) = Inr m"
| "message L (ZodError issues) = Inr (zod_message L issues)"
| "message L (NonError str) = Inr str"
| "message L (Unprintable raised) = Inl raised"

section \<open>Argument schemas\<close>

definition issues_of :: "zod_issue list + 'a \<Rightarrow> zod_issue list" where
  "issues_of r = (case r of Inl issues \<Rightarrow> issues | Inr v \<Rightarrow> [])"

text \<open>\<open>z.string()\<close> at field \<open>k\<close>.\<close>

fun zod_string :: "string \<Rightarrow> json option \<Rightarrow> zod_issue list + string" where
  "zod_string k (Some (JStr v)) = Inr v"
| "zod_string k other = Inl [ZodIssue invalid_type [k]]"

text \<open>\<open>z.string().url('Must be a valid URL')\<close> at field \<open>k\<close>.\<close>

fun zod_url :: "lib \<Rightarrow> string \<Rightarrow> json option \<Rightarrow> zod_issue list + string" where
  "zod_url L k (Some (JStr v)) = (if url_ok L v then Inr v else Inl [ZodIssue invalid_string [k]])"
| "zod_url L k other = Inl [ZodIssue invalid_type [k]]"

text \<open>\<open>z.string().optional()\<close> at field \<open>k\<close>.\<close>

fun zod_string_optional :: "string \<Rightarrow> json option \<Rightarrow> zod_issue list + string option" where
  "zod_string_optional k None = Inr None"
| "zod_string_optional k (Some (JStr v)) = Inr (Some v)"
| "zod_string_optional k other = Inl [ZodIssue invalid_type [k]]"

text \<open>\<open>z.enum(values).optional().default(d)\<close> at field \<open>k\<close>.\<close>

fun zod_enum_default :: "string list \<Rightarrow> string \<Rightarrow> string \<Rightarrow> json option \<Rightarrow> zod_issue list + string" where
  "zod_enum_default values d k None = Inr d"
| "zod_enum_default values d k (Some (JStr v)) =
     (if v \<in> set values then Inr v else Inl [ZodIssue invalid_enum_value [k]])"
| "zod_enum_default values d k other = Inl [ZodIssue invalid_type [k]]"

text \<open>\<open>z.boolean().optional().default(d)\<close> at field \<open>k\<close>.\<close>

fun zod_boolean_default :: "bool \<Rightarrow> string \<Rightarrow> json option \<Rightarrow> zod_issue list + bool" where
  "zod_boolean_default d k None = Inr d"
| "zod_boolean_default d k (Some (JBool b)) = Inr b"
| "zod_boolean_default d k other = Inl [ZodIssue invalid_type [k]]"

text \<open>\<open>z.number().min(lo).max(hi).optional()\<close> at field \<open>k\<close>.\<close>

fun zod_number_range_optional :: "rat \<Rightarrow> rat \<Rightarrow> string \<Rightarrow> json option \<Rightarrow> zod_issue list + rat option" where
  "zod_number_range_optional lo hi k None = Inr None"
| "zod_number_range_optional lo hi k (Some (JNum n)) =
     (if n < lo then Inl [ZodIssue too_small [k]]
      else if hi < n then Inl [ZodIssue too_big [k]]
      else Inr (Some n))"
| "zod_number_range_optional lo hi k other = Inl [ZodIssue invalid_type [k]]"

record screenshot_args =
  sa_fullPage :: bool
  sa_format :: string
  sa_quality :: "rat option"

definition NavigateSchema :: "lib \<Rightarrow> args \<Rightarrow> zod_issue list + (string \<times> string)" where
  "NavigateSchema L a =
     (case a of
        None \<Rightarrow> Inl [ZodIssue invalid_type []]
      | Some obj \<Rightarrow>
          (let url = zod_url L ''url'' (map_of obj ''url'');
               waitUntil = zod_enum_default [''load'', ''domcontentloaded'', ''networkidle0'', ''networkidle2'']
                             ''load'' ''waitUntil'' (map_of obj ''waitUntil'')
           in case (url, waitUntil) of
                (Inr u, Inr w) \<Rightarrow> Inr (u, w)
              | other \<Rightarrow> Inl (issues_of url @ issues_of waitUntil)))"

definition ScreenshotSchema :: "args \<Rightarrow> zod_issue list + screenshot_args" where
  "ScreenshotSchema a =
     (case a of
        None \<Rightarrow> Inl [ZodIssue invalid_type []]
      | Some obj \<Rightarrow>
          (let fullPage = zod_boolean_default False ''fullPage'' (map_of obj ''fullPage'');
               format = zod_enum_default [''png'', ''jpeg'', ''webp''] ''png'' ''format'' (map_of obj ''format'');
               quality = zod_number_range_optional 0 100 ''quality'' (map_of obj ''quality'')
           in case (fullPage, format, quality) of
                (Inr fp, Inr fmt, Inr q) \<Rightarrow> Inr \<lparr>sa_fullPage = fp, sa_format = fmt, sa_quality = q\<rparr>
              | other \<Rightarrow> Inl (issues_of fullPage @ issues_of format @ issues_of quality)))"

definition GetTextSchema :: "args \<Rightarrow> zod_issue list + string option" where
  "GetTextSchema a =
     (case a of
        None \<Rightarrow> Inl [ZodIssue invalid_type []]
      | Some obj \<Rightarrow> zod_string_optional ''selector'' (map_of obj ''selector''))"

definition ClickSchema :: "args \<Rightarrow> zod_issue list + string" where
  "ClickSchema a =
     (case a of
        None \<Rightarrow> Inl [ZodIssue invalid_type []]
      | Some obj \<Rightarrow> zod_string ''selector'' (map_of obj ''selector''))"

definition TypeSchema :: "args \<Rightarrow> zod_issue list + (string \<times> string)" where
  "TypeSchema a =
     (case a of
        None \<Rightarrow> Inl [ZodIssue invalid_type []]
      | Some obj \<Rightarrow>
          (let selector = zod_string ''selector'' (map_of obj ''selector'');
               txt = zod_string ''text'' (map_of obj ''text'')
           in case (selector, txt) of
                (Inr sel, Inr t) \<Rightarrow> Inr (sel, t)
              | other \<Rightarrow> Inl (issues_of selector @ issues_of txt)))"

definition EvaluateSchema :: "args \<Rightarrow> zod_issue list + string" where
  "EvaluateSchema a =
     (case a of
        None \<Rightarrow> Inl [ZodIssue invalid_type []]
      | Some obj \<Rightarrow> zod_string ''script'' (map_of obj ''script''))"

section \<open>The browser engine\<close>

text \<open>
  The engine is outside the repository. Each invocation of a tool receives the engine's
  answers as a record of functions of the arguments the code passes; an answer is either a
  thrown value or a result. Within one invocation the code calls each engine function at
  most once. Every engine call is also appended to the session's \<open>calls\<close>, a record of
  what was asked of the engine and in which order; it is not a field of the source.
\<close>

record launch_options =
  lo_headless :: json
  lo_defaultViewport :: "json option"
  lo_args :: "string list option"
  lo_executablePath :: "string option"

record shot_options =
  so_fullPage :: bool
  so_type :: string
  so_quality :: "rat option"

datatype call =
    CClose handle
  | CLaunch launch_options
  | CNewPage handle
  | CGoto handle string string
  | CScreenshot handle shot_options
  | CQuery handle string
  | CElementText handle handle
  | CBodyText handle
  | CClick handle string
  | CType handle string string
  | CEvaluate handle string

record engine =
  browser_close :: "handle \<Rightarrow> thrown option"
  puppeteer_launch :: "launch_options \<Rightarrow> thrown + handle"
  browser_newPage :: "handle \<Rightarrow> thrown + handle"
  page_goto :: "handle \<Rightarrow> string \<Rightarrow> string \<Rightarrow> thrown option"
  page_screenshot :: "handle \<Rightarrow> shot_options \<Rightarrow> thrown + bytes option"
  page_query :: "handle \<Rightarrow> string \<Rightarrow> thrown + handle option"
  element_textContent :: "handle \<Rightarrow> handle \<Rightarrow> thrown + string option"
  body_textContent :: "handle \<Rightarrow> thrown + string option"
  page_click :: "handle \<Rightarrow> string \<Rightarrow> thrown option"
  page_type :: "handle \<Rightarrow> string \<Rightarrow> string \<Rightarrow> thrown option"
  page_evaluate :: "handle \<Rightarrow> string \<Rightarrow> thrown + json option"

section \<open>The session\<close>

record session =
  browser :: "handle option"
  page :: "handle option"
  calls :: "call list"

definition initial :: session where
  "initial = \<lparr>browser = None, page = None, calls = []\<rparr>"

definition logged :: "call \<Rightarrow> session \<Rightarrow> session" where
  "logged c s = s\<lparr>calls := calls s @ [c]\<rparr>"

text \<open>The message of the TypeError raised by reading property \<open>k\<close> of \<open>what\<close>.\<close>

definition cannot_read :: "string \<Rightarrow> string \<Rightarrow> thrown" where
  "cannot_read what k =
     ErrorObj (''Cannot read properties of '' @ what @ '' (reading '' @ [CHR 0x27] @ k @ [CHR 0x27] @ '')'')"

definition ensureBrowserAndPage :: "engine \<Rightarrow> session \<Rightarrow> (thrown + unit) \<times> session" where
  "ensureBrowserAndPage e s =
     (case browser s of
        None \<Rightarrow> (Inl (ErrorObj ''Browser not launched. Use puppeteer_launch first.''), s)
      | Some b \<Rightarrow>
          (case page s of
             Some p \<Rightarrow> (Inr (), s)
           | None \<Rightarrow>
               (case browser_newPage e b of
                  Inl err \<Rightarrow> (Inl err, logged (CNewPage b) s)
                | Inr p \<Rightarrow> (Inr (), (logged (CNewPage b) s)\<lparr>page := Some p\<rparr>))))"

subsection \<open>launch\<close>

text \<open>The object \<open>options\<close> after the \<open>if (args.viewport)\<close> block.\<close>

definition with_viewport :: "(string \<times> json) list \<Rightarrow> launch_options \<Rightarrow> launch_options" where
  "with_viewport obj options =
     (case map_of obj ''viewport'' of
        None \<Rightarrow> options
      | Some v \<Rightarrow>
          (if truthy (Some v) then
             options\<lparr>lo_defaultViewport :=
               Some (JObj [(''width'', falsy_or (get_prop v ''width'') (JNum 1280)),
                           (''height'', falsy_or (get_prop v ''height'') (JNum 720))])\<rparr>
           else options))"

text \<open>
  The value of \<open>options\<close> handed to \<open>puppeteer.launch\<close> by the stdio server. Reading
  \<open>args.headless\<close> of an absent argument object raises a TypeError.
\<close>

definition launchOptions :: "args \<Rightarrow> thrown + launch_options" where
  "launchOptions a =
     (case a of
        None \<Rightarrow> Inl (cannot_read ''undefined'' ''headless'')
      | Some obj \<Rightarrow>
          Inr (with_viewport obj
                 \<lparr>lo_headless = nullish_or (map_of obj ''headless'') (JBool True),
                  lo_defaultViewport = None,
                  lo_args = None,
                  lo_executablePath = None\<rparr>))"

text \<open>
  What the HTTP server reads from its host: whether \<open>NODE_ENV\<close> is \<open>production\<close>, the
  bundled Chromium's arguments, default viewport and executable path (awaited, so it may
  throw), and which files exist.
\<close>

record host_env =
  production :: bool
  chromium_args :: "string list"
  chromium_defaultViewport :: "json option"
  chromium_executablePath :: "thrown + string option"
  existsSync :: "string \<Rightarrow> bool"

definition chromePaths :: "string list" where
  "chromePaths =
     [''/Applications/Google Chrome.app/Contents/MacOS/Google Chrome'',
      ''/usr/bin/google-chrome'',
      ''/usr/bin/chromium-browser'',
      ''C:'' @ [CHR 0x5C] @ ''Program Files'' @ [CHR 0x5C] @ ''Google'' @ [CHR 0x5C] @ ''Chrome''
        @ [CHR 0x5C] @ ''Application'' @ [CHR 0x5C] @ ''chrome.exe'',
      ''C:'' @ [CHR 0x5C] @ ''Program Files (x86)'' @ [CHR 0x5C] @ ''Google'' @ [CHR 0x5C] @ ''Chrome''
        @ [CHR 0x5C] @ ''Application'' @ [CHR 0x5C] @ ''chrome.exe'']"

text \<open>The value of \<open>options\<close> handed to \<open>puppeteer.launch\<close> by the HTTP server.\<close>

definition launchOptions_http :: "host_env \<Rightarrow> args \<Rightarrow> thrown + launch_options" where
  "launchOptions_http env a =
     (if production env then
        (case chromium_executablePath env of
           Inl err \<Rightarrow> Inl err
         | Inr path \<Rightarrow>
             (case a of
                None \<Rightarrow> Inl (cannot_read ''undefined'' ''headless'')
              | Some obj \<Rightarrow>
                  Inr (with_viewport obj
                         \<lparr>lo_headless = nullish_or (map_of obj ''headless'') (JBool True),
                          lo_defaultViewport = chromium_defaultViewport env,
                          lo_args = Some (chromium_args env @ [''--hide-scrollbars'', ''--disable-web-security'']),
                          lo_executablePath = path\<rparr>)))
      else
        (case a of
           None \<Rightarrow> Inl (cannot_read ''undefined'' ''headless'')
         | Some obj \<Rightarrow>
             Inr (with_viewport obj
                    \<lparr>lo_headless = nullish_or (map_of obj ''headless'') (JBool True),
                     lo_defaultViewport = None,
                     lo_args = Some [''--no-sandbox'', ''--disable-setuid-sandbox''],
                     lo_executablePath = find (existsSync env) chromePaths\<rparr>)))"

text \<open>
  \<open>launchBrowser\<close> of both servers; they differ only in how \<open>options\<close> is built, which is
  the parameter \<open>mk\<close>.
\<close>

definition launchBrowser_with ::
  "(args \<Rightarrow> thrown + launch_options) \<Rightarrow> engine \<Rightarrow> args \<Rightarrow> session \<Rightarrow> (thrown + content list) \<times> session" where
  "launchBrowser_with mk e a s =
     (let closed =
        (case browser s of
           None \<Rightarrow> (None, s)
         | Some b \<Rightarrow> (browser_close e b, logged (CClose b) s))
      in case closed of
           (Some err, s1) \<Rightarrow> (Inl err, s1)
         | (None, s1) \<Rightarrow>
             (case mk a of
                Inl err \<Rightarrow> (Inl err, s1)
              | Inr options \<Rightarrow>
                  (case puppeteer_launch e options of
                     Inl err \<Rightarrow> (Inl err, logged (CLaunch options) s1)
                   | Inr b \<Rightarrow>
                       (let s2 = (logged (CLaunch options) s1)\<lparr>browser := Some b\<rparr> in
                        case browser_newPage e b of
                          Inl err \<Rightarrow> (Inl err, logged (CNewPage b) s2)
                        | Inr p \<Rightarrow>
                            (Inr [Text (''Browser launched successfully in ''
                                        @ (if truthy (Option.bind a (\<lambda>obj. map_of obj ''headless''))
                                           then ''headless'' else ''headed'')
                                        @ '' mode'')],
                             (logged (CNewPage b) s2)\<lparr>page := Some p\<rparr>)))))"

definition launchBrowser :: "engine \<Rightarrow> args \<Rightarrow> session \<Rightarrow> (thrown + content list) \<times> session" where
  "launchBrowser = launchBrowser_with launchOptions"

definition launchBrowser_http ::
  "host_env \<Rightarrow> engine \<Rightarrow> args \<Rightarrow> session \<Rightarrow> (thrown + content list) \<times> session" where
  "launchBrowser_http env = launchBrowser_with (launchOptions_http env)"

subsection \<open>Page operations\<close>

text \<open>
  Each page operation parses its arguments, calls \<open>ensureBrowserAndPage\<close>, then uses
  \<open>this.page!\<close>; were the page \<open>null\<close> there, the method call would raise a TypeError.
\<close>

definition navigate :: "lib \<Rightarrow> engine \<Rightarrow> args \<Rightarrow> session \<Rightarrow> (thrown + content list) \<times> session" where
  "navigate L e a s =
     (case NavigateSchema L a of
        Inl issues \<Rightarrow> (Inl (ZodError issues), s)
      | Inr (url, waitUntil) \<Rightarrow>
          (case ensureBrowserAndPage e s of
             (Inl err, s1) \<Rightarrow> (Inl err, s1)
           | (Inr u, s1) \<Rightarrow>
               (case page s1 of
                  None \<Rightarrow> (Inl (cannot_read ''null'' ''goto''), s1)
                | Some p \<Rightarrow>
                    (case page_goto e p url waitUntil of
                       Some err \<Rightarrow> (Inl err, logged (CGoto p url waitUntil) s1)
                     | None \<Rightarrow>
                         (Inr [Text (''Navigated to: '' @ url)], logged (CGoto p url waitUntil) s1)))))"

text \<open>
  The object \<open>options\<close> handed to \<open>page.screenshot\<close>: \<open>quality\<close> is set under
  \<open>if (format === 'jpeg' && quality)\<close>, a truthiness test of the number.
\<close>

definition screenshotOptions :: "screenshot_args \<Rightarrow> shot_options" where
  "screenshotOptions v =
     \<lparr>so_fullPage = sa_fullPage v,
      so_type = sa_format v,
      so_quality =
        (if sa_format v = ''jpeg'' \<and> truthy (map_option JNum (sa_quality v))
         then sa_quality v else None)\<rparr>"

definition screenshot :: "lib \<Rightarrow> engine \<Rightarrow> args \<Rightarrow> session \<Rightarrow> (thrown + content list) \<times> session" where
  "screenshot L e a s =
     (case ScreenshotSchema a of
        Inl issues \<Rightarrow> (Inl (ZodError issues), s)
      | Inr v \<Rightarrow>
          (case ensureBrowserAndPage e s of
             (Inl err, s1) \<Rightarrow> (Inl err, s1)
           | (Inr u, s1) \<Rightarrow>
               (case page s1 of
                  None \<Rightarrow> (Inl (cannot_read ''null'' ''screenshot''), s1)
                | Some p \<Rightarrow>
                    (let options = screenshotOptions v;
                         s2 = logged (CScreenshot p options) s1
                     in case page_screenshot e p options of
                          Inl err \<Rightarrow> (Inl err, s2)
                        | Inr None \<Rightarrow> (Inl (ErrorObj ''Failed to capture screenshot''), s2)
                        | Inr (Some data) \<Rightarrow>
                            (Inr [Text (''Screenshot taken ('' @ sa_format v @ '', fullPage: ''
                                        @ show_bool (sa_fullPage v) @ '')''),
                                  Image (base64 L data) (''image/'' @ sa_format v)],
                             s2)))))"

text \<open>The selector when \<open>if (selector)\<close> holds: present and not the empty string.\<close>

definition selector_given :: "string option \<Rightarrow> string option" where
  "selector_given selector =
     (case selector of
        None \<Rightarrow> None
      | Some sel \<Rightarrow> (if truthy (Some (JStr sel)) then Some sel else None))"

text \<open>\<open>textContent || ''\<close>, where an absent text content is \<open>null\<close>.\<close>

definition text_or_empty :: "string option \<Rightarrow> string" where
  "text_or_empty t = (case t of None \<Rightarrow> [] | Some x \<Rightarrow> x)"

definition getText :: "engine \<Rightarrow> args \<Rightarrow> session \<Rightarrow> (thrown + content list) \<times> session" where
  "getText e a s =
     (case GetTextSchema a of
        Inl issues \<Rightarrow> (Inl (ZodError issues), s)
      | Inr selector \<Rightarrow>
          (case ensureBrowserAndPage e s of
             (Inl err, s1) \<Rightarrow> (Inl err, s1)
           | (Inr u, s1) \<Rightarrow>
               (case selector_given selector of
                  Some sel \<Rightarrow>
                    (case page s1 of
                       None \<Rightarrow> (Inl (cannot_read ''null'' ''$''), s1)
                     | Some p \<Rightarrow>
                         (case page_query e p sel of
                            Inl err \<Rightarrow> (Inl err, logged (CQuery p sel) s1)
                          | Inr None \<Rightarrow>
                              (Inl (ErrorObj (''Element not found: '' @ sel)), logged (CQuery p sel) s1)
                          | Inr (Some el) \<Rightarrow>
                              (let s2 = logged (CElementText p el) (logged (CQuery p sel) s1)
                               in case element_textContent e p el of
                                    Inl err \<Rightarrow> (Inl err, s2)
                                  | Inr t \<Rightarrow>
                                      (Inr [Text (''Text from '' @ sel @ '': '' @ text_or_empty t)], s2))))
                | None \<Rightarrow>
                    (case page s1 of
                       None \<Rightarrow> (Inl (cannot_read ''null'' ''evaluate''), s1)
                     | Some p \<Rightarrow>
                         (case body_textContent e p of
                            Inl err \<Rightarrow> (Inl err, logged (CBodyText p) s1)
                          | Inr t \<Rightarrow>
                              (Inr [Text (''Page text: '' @ text_or_empty t)], logged (CBodyText p) s1))))))"

definition click :: "engine \<Rightarrow> args \<Rightarrow> session \<Rightarrow> (thrown + content list) \<times> session" where
  "click e a s =
     (case ClickSchema a of
        Inl issues \<Rightarrow> (Inl (ZodError issues), s)
      | Inr selector \<Rightarrow>
          (case ensureBrowserAndPage e s of
             (Inl err, s1) \<Rightarrow> (Inl err, s1)
           | (Inr u, s1) \<Rightarrow>
               (case page s1 of
                  None \<Rightarrow> (Inl (cannot_read ''null'' ''click''), s1)
                | Some p \<Rightarrow>
                    (case page_click e p selector of
                       Some err \<Rightarrow> (Inl err, logged (CClick p selector) s1)
                     | None \<Rightarrow>
                         (Inr [Text (''Clicked element: '' @ selector)], logged (CClick p selector) s1)))))"

definition typeText :: "engine \<Rightarrow> args \<Rightarrow> session \<Rightarrow> (thrown + content list) \<times> session" where
  "typeText e a s =
     (case TypeSchema a of
        Inl issues \<Rightarrow> (Inl (ZodError issues), s)
      | Inr (selector, txt) \<Rightarrow>
          (case ensureBrowserAndPage e s of
             (Inl err, s1) \<Rightarrow> (Inl err, s1)
           | (Inr u, s1) \<Rightarrow>
               (case page s1 of
                  None \<Rightarrow> (Inl (cannot_read ''null'' ''type''), s1)
                | Some p \<Rightarrow>
                    (case page_type e p selector txt of
                       Some err \<Rightarrow> (Inl err, logged (CType p selector txt) s1)
                     | None \<Rightarrow>
                         (Inr [Text (''Typed '' @ [CHR 0x22] @ txt @ [CHR 0x22] @ '' into '' @ selector)],
                          logged (CType p selector txt) s1)))))"

text \<open>
  \<open>JSON.stringify(result, null, 2)\<close> inside a template literal: an \<open>undefined\<close> result
  prints as \<open>undefined\<close>.
\<close>

definition evaluate :: "lib \<Rightarrow> engine \<Rightarrow> args \<Rightarrow> session \<Rightarrow> (thrown + content list) \<times> session" where
  "evaluate L e a s =
     (case EvaluateSchema a of
        Inl issues \<Rightarrow> (Inl (ZodError issues), s)
      | Inr script \<Rightarrow>
          (case ensureBrowserAndPage e s of
             (Inl err, s1) \<Rightarrow> (Inl err, s1)
           | (Inr u, s1) \<Rightarrow>
               (case page s1 of
                  None \<Rightarrow> (Inl (cannot_read ''null'' ''evaluate''), s1)
                | Some p \<Rightarrow>
                    (case page_evaluate e p script of
                       Inl err \<Rightarrow> (Inl err, logged (CEvaluate p script) s1)
                     | Inr r \<Rightarrow>
                         (Inr [Text (''Script result: ''
                                     @ (case r of None \<Rightarrow> ''undefined'' | Some v \<Rightarrow> json_stringify L v))],
                          logged (CEvaluate p script) s1)))))"

subsection \<open>close\<close>

definition closeBrowser :: "engine \<Rightarrow> session \<Rightarrow> (thrown + content list) \<times> session" where
  "closeBrowser e s =
     (case browser s of
        None \<Rightarrow> (Inr [Text ''Browser closed successfully''], s)
      | Some b \<Rightarrow>
          (case browser_close e b of
             Some err \<Rightarrow> (Inl err, logged (CClose b) s)
           | None \<Rightarrow>
               (Inr [Text ''Browser closed successfully''],
                (logged (CClose b) s)\<lparr>browser := None, page := None\<rparr>)))"

section \<open>The tool executor\<close>

datatype transport = Stdio | Http host_env

text \<open>The \<open>switch\<close> inside the \<open>try\<close> block of the call handler.\<close>

definition dispatch ::
  "lib \<Rightarrow> transport \<Rightarrow> engine \<Rightarrow> string \<Rightarrow> args \<Rightarrow> session \<Rightarrow> (thrown + content list) \<times> session" where
  "dispatch L t e name a s =
     (if name = ''puppeteer_launch'' then
        (case t of Stdio \<Rightarrow> launchBrowser e a s | Http env \<Rightarrow> launchBrowser_http env e a s)
      else if name = ''puppeteer_navigate'' then navigate L e a s
      else if name = ''puppeteer_screenshot'' then screenshot L e a s
      else if name = ''puppeteer_get_text'' then getText e a s
      else if name = ''puppeteer_click'' then click e a s
      else if name = ''puppeteer_type'' then typeText e a s
      else if name = ''puppeteer_evaluate'' then evaluate L e a s
      else if name = ''puppeteer_close'' then closeBrowser e s
      else (Inl (ErrorObj (''Unknown tool: '' @ name)), s))"

text \<open>
  The call handler: the \<open>switch\<close> and the \<open>catch\<close> that turns a thrown value into an
  envelope. What the \<open>catch\<close> block itself throws leaves the handler as an exception.
\<close>

definition callTool ::
  "lib \<Rightarrow> transport \<Rightarrow> engine \<Rightarrow> string \<Rightarrow> args \<Rightarrow> session
     \<Rightarrow> (thrown + content list) \<times> session" where
  "callTool L t e name a s =
     (case dispatch L t e name a s of
        (Inr envelope, s1) \<Rightarrow> (Inr envelope, s1)
      | (Inl err, s1) \<Rightarrow>
          (case message L err of
             Inl raised \<Rightarrow> (Inl raised, s1)
           | Inr m \<Rightarrow> (Inr [Text (''Error: '' @ m)], s1)))"

section \<open>The tool catalog\<close>

record tool =
  tool_name :: string
  tool_description :: string
  inputSchema :: json

text \<open>The list returned by the list handler of the stdio server.\<close>

definition tools :: "tool list" where
  "tools =
     [\<lparr>tool_name = ''puppeteer_launch'',
       tool_description = ''Launch a new browser instance'',
       inputSchema = JObj
         [(''type'', JStr ''object''),
          (''properties'', JObj
             [(''headless'', JObj
                 [(''type'', JStr ''boolean''),
                  (''description'', JStr ''Run browser in headless mode''),
                  (''default'', JBool True)]),
              (''viewport'', JObj
                 [(''type'', JStr ''object''),
                  (''properties'', JObj
                     [(''width'', JObj [(''type'', JStr ''number''), (''default'', JNum 1280)]),
                      (''height'', JObj [(''type'', JStr ''number''), (''default'', JNum 720)])])])])]\<rparr>,
      \<lparr>tool_name = ''puppeteer_navigate'',
       tool_description = ''Navigate to a URL'',
       inputSchema = JObj
         [(''type'', JStr ''object''),
          (''properties'', JObj
             [(''url'', JObj [(''type'', JStr ''string''), (''description'', JStr ''URL to navigate to'')]),
              (''waitUntil'', JObj
                 [(''type'', JStr ''string''),
                  (''enum'', JArr [JStr ''load'', JStr ''domcontentloaded'', JStr ''networkidle0'',
                                   JStr ''networkidle2'']),
                  (''default'', JStr ''load'')])]),
          (''required'', JArr [JStr ''url''])]\<rparr>,
      \<lparr>tool_name = ''puppeteer_screenshot'',
       tool_description = ''Take a screenshot of the current page'',
       inputSchema = JObj
         [(''type'', JStr ''object''),
          (''properties'', JObj
             [(''fullPage'', JObj [(''type'', JStr ''boolean''), (''default'', JBool False)]),
              (''format'', JObj
                 [(''type'', JStr ''string''),
                  (''enum'', JArr [JStr ''png'', JStr ''jpeg'', JStr ''webp'']),
                  (''default'', JStr ''png'')]),
              (''quality'', JObj
                 [(''type'', JStr ''number''), (''minimum'', JNum 0), (''maximum'', JNum 100)])])]\<rparr>,
      \<lparr>tool_name = ''puppeteer_get_text'',
       tool_description = ''Get text content from the page or a specific selector'',
       inputSchema = JObj
         [(''type'', JStr ''object''),
          (''properties'', JObj
             [(''selector'', JObj
                 [(''type'', JStr ''string''),
                  (''description'',
                   JStr ''CSS selector (optional, gets full page text if not provided)'')])])]\<rparr>,
      \<lparr>tool_name = ''puppeteer_click'',
       tool_description = ''Click on an element'',
       inputSchema = JObj
         [(''type'', JStr ''object''),
          (''properties'', JObj
             [(''selector'', JObj
                 [(''type'', JStr ''string''),
                  (''description'', JStr ''CSS selector of element to click'')])]),
          (''required'', JArr [JStr ''selector''])]\<rparr>,
      \<lparr>tool_name = ''puppeteer_type'',
       tool_description = ''Type text into an input field'',
       inputSchema = JObj
         [(''type'', JStr ''object''),
          (''properties'', JObj
             [(''selector'', JObj
                 [(''type'', JStr ''string''), (''description'', JStr ''CSS selector of input field'')]),
              (''text'', JObj [(''type'', JStr ''string''), (''description'', JStr ''Text to type'')])]),
          (''required'', JArr [JStr ''selector'', JStr ''text''])]\<rparr>,
      \<lparr>tool_name = ''puppeteer_evaluate'',
       tool_description = ''Execute JavaScript in the browser context'',
       inputSchema = JObj
         [(''type'', JStr ''object''),
          (''properties'', JObj
             [(''script'', JObj
                 [(''type'', JStr ''string''), (''description'', JStr ''JavaScript code to execute'')])]),
          (''required'', JArr [JStr ''script''])]\<rparr>,
      \<lparr>tool_name = ''puppeteer_close'',
       tool_description = ''Close the browser instance'',
       inputSchema = JObj [(''type'', JStr ''object''), (''properties'', JObj [])]\<rparr>]"

text \<open>The list returned by the list handler of the HTTP server.\<close>

definition tools_http :: "tool list" where
  "tools_http =
     [\<lparr>tool_name = ''puppeteer_launch'',
       tool_description = ''Launch a new browser instance'',
       inputSchema = JObj
         [(''type'', JStr ''object''),
          (''properties'', JObj
             [(''headless'', JObj
                 [(''type'', JStr ''boolean''),
                  (''description'', JStr ''Run browser in headless mode''),
                  (''default'', JBool True)]),
              (''viewport'', JObj
                 [(''type'', JStr ''object''),
                  (''properties'', JObj
                     [(''width'', JObj [(''type'', JStr ''number''), (''default'', JNum 1280)]),
                      (''height'', JObj [(''type'', JStr ''number''), (''default'', JNum 720)])])])])]\<rparr>,
      \<lparr>tool_name = ''puppeteer_navigate'',
       tool_description = ''Navigate to a URL'',
       inputSchema = JObj
         [(''type'', JStr ''object''),
          (''properties'', JObj
             [(''url'', JObj [(''type'', JStr ''string''), (''description'', JStr ''URL to navigate to'')]),
              (''waitUntil'', JObj
                 [(''type'', JStr ''string''),
                  (''enum'', JArr [JStr ''load'', JStr ''domcontentloaded'', JStr ''networkidle0'',
                                   JStr ''networkidle2'']),
                  (''default'', JStr ''load'')])]),
          (''required'', JArr [JStr ''url''])]\<rparr>,
      \<lparr>tool_name = ''puppeteer_screenshot'',
       tool_description = ''Take a screenshot of the current page'',
       inputSchema = JObj
         [(''type'', JStr ''object''),
          (''properties'', JObj
             [(''fullPage'', JObj [(''type'', JStr ''boolean''), (''default'', JBool False)]),
              (''format'', JObj
                 [(''type'', JStr ''string''),
                  (''enum'', JArr [JStr ''png'', JStr ''jpeg'', JStr ''webp'']),
                  (''default'', JStr ''png'')]),
              (''quality'', JObj
                 [(''type'', JStr ''number''), (''minimum'', JNum 0), (''maximum'', JNum 100)])])]\<rparr>,
      \<lparr>tool_name = ''puppeteer_get_text'',
       tool_description = ''Get text content from the page or a specific selector'',
       inputSchema = JObj
         [(''type'', JStr ''object''),
          (''properties'', JObj
             [(''selector'', JObj
                 [(''type'', JStr ''string''),
                  (''description'',
                   JStr ''CSS selector (optional, gets full page text if not provided)'')])])]\<rparr>,
      \<lparr>tool_name = ''puppeteer_click'',
       tool_description = ''Click on an element'',
       inputSchema = JObj
         [(''type'', JStr ''object''),
          (''properties'', JObj
             [(''selector'', JObj
                 [(''type'', JStr ''string''),
                  (''description'', JStr ''CSS selector of element to click'')])]),
          (''required'', JArr [JStr ''selector''])]\<rparr>,
      \<lparr>tool_name = ''puppeteer_type'',
       tool_description = ''Type text into an input field'',
       inputSchema = JObj
         [(''type'', JStr ''object''),
          (''properties'', JObj
             [(''selector'', JObj
                 [(''type'', JStr ''string''), (''description'', JStr ''CSS selector of input field'')]),
              (''text'', JObj [(''type'', JStr ''string''), (''description'', JStr ''Text to type'')])]),
          (''required'', JArr [JStr ''selector'', JStr ''text''])]\<rparr>,
      \<lparr>tool_name = ''puppeteer_evaluate'',
       tool_description = ''Execute JavaScript in the browser context'',
       inputSchema = JObj
         [(''type'', JStr ''object''),
          (''properties'', JObj
             [(''script'', JObj
                 [(''type'', JStr ''string''), (''description'', JStr ''JavaScript code to execute'')])]),
          (''required'', JArr [JStr ''script''])]\<rparr>,
      \<lparr>tool_name = ''puppeteer_close'',
       tool_description = ''Close the browser instance'',
       inputSchema = JObj [(''type'', JStr ''object''), (''properties'', JObj [])]\<rparr>]"

text \<open>The list handler: it reads no field of the session and writes none.\<close>

definition listTools :: "transport \<Rightarrow> session \<Rightarrow> tool list \<times> session" where
  "listTools t s = (case t of Stdio \<Rightarrow> (tools, s) | Http env \<Rightarrow> (tools_http, s))"

text \<open>The field names under \<open>required\<close> of a descriptor's schema; none when the key is absent.\<close>

fun strings_of :: "json list \<Rightarrow> string list" where
  "strings_of [] = []"
| "strings_of (JStr x # xs) = x # strings_of xs"
| "strings_of (other # xs) = strings_of xs"

definition required_fields :: "tool \<Rightarrow> string list" where
  "required_fields d =
     (case get_prop (inputSchema d) ''required'' of
        Some (JArr xs) \<Rightarrow> strings_of xs
      | other \<Rightarrow> [])"

text \<open>The names of the fields a descriptor's schema declares under \<open>properties\<close>.\<close>

definition declared_fields :: "tool \<Rightarrow> string list" where
  "declared_fields d =
     (case get_prop (inputSchema d) ''properties'' of
        Some (JObj kvs) \<Rightarrow> map fst kvs
      | other \<Rightarrow> [])"

section \<open>Predicates used in the statements\<close>

text \<open>The six tools that work on the page; each parses its arguments with a schema.\<close>

definition page_tools :: "string list" where
  "page_tools =
     [''puppeteer_navigate'', ''puppeteer_screenshot'', ''puppeteer_get_text'',
      ''puppeteer_click'', ''puppeteer_type'', ''puppeteer_evaluate'']"

text \<open>The arguments pass the schema that the named tool parses them with.\<close>

definition valid_args :: "lib \<Rightarrow> string \<Rightarrow> args \<Rightarrow> bool" where
  "valid_args L name a =
     (if name = ''puppeteer_navigate'' then \<not> isl (NavigateSchema L a)
      else if name = ''puppeteer_screenshot'' then \<not> isl (ScreenshotSchema a)
      else if name = ''puppeteer_get_text'' then \<not> isl (GetTextSchema a)
      else if name = ''puppeteer_click'' then \<not> isl (ClickSchema a)
      else if name = ''puppeteer_type'' then \<not> isl (TypeSchema a)
      else if name = ''puppeteer_evaluate'' then \<not> isl (EvaluateSchema a)
      else True)"

text \<open>The error raised by \<open>ensureBrowserAndPage\<close> when no browser is open.\<close>

definition not_launched :: thrown where
  "not_launched = ErrorObj ''Browser not launched. Use puppeteer_launch first.''"

text \<open>The invariant of the session: a page handle only together with a browser handle.\<close>

definition session_inv :: "session \<Rightarrow> bool" where
  "session_inv s = (page s \<noteq> None \<longrightarrow> browser s \<noteq> None)"

text \<open>The \<open>options\<close> object a transport variant builds for \<open>puppeteer.launch\<close>.\<close>

definition options_for :: "transport \<Rightarrow> args \<Rightarrow> thrown + launch_options" where
  "options_for t a = (case t of Stdio \<Rightarrow> launchOptions a | Http env \<Rightarrow> launchOptions_http env a)"

text \<open>The engine calls made between a session and a later one.\<close>

definition new_calls :: "session \<Rightarrow> session \<Rightarrow> call list" where
  "new_calls s s1 = drop (length (calls s)) (calls s1)"

text \<open>
  A thrown value that the \<open>catch\<close> block can turn into a message: an \<open>Error\<close>, or a value
  that \<open>String\<close> converts.
\<close>

fun printable :: "thrown \<Rightarrow> bool" where
  "printable (Unprintable raised) = False"
| "printable other = True"

text \<open>Every value the engine throws, and every value the host's path lookup throws, is such a value.\<close>

definition engine_printable :: "engine \<Rightarrow> bool" where
  "engine_printable e =
     ((\<forall>b err. browser_close e b = Some err \<longrightarrow> printable err)
      \<and> (\<forall>options err. puppeteer_launch e options = Inl err \<longrightarrow> printable err)
      \<and> (\<forall>b err. browser_newPage e b = Inl err \<longrightarrow> printable err)
      \<and> (\<forall>p url waitUntil err. page_goto e p url waitUntil = Some err \<longrightarrow> printable err)
      \<and> (\<forall>p options err. page_screenshot e p options = Inl err \<longrightarrow> printable err)
      \<and> (\<forall>p sel err. page_query e p sel = Inl err \<longrightarrow> printable err)
      \<and> (\<forall>p el err. element_textContent e p el = Inl err \<longrightarrow> printable err)
      \<and> (\<forall>p err. body_textContent e p = Inl err \<longrightarrow> printable err)
      \<and> (\<forall>p sel err. page_click e p sel = Some err \<longrightarrow> printable err)
      \<and> (\<forall>p sel txt err. page_type e p sel txt = Some err \<longrightarrow> printable err)
      \<and> (\<forall>p script err. page_evaluate e p script = Inl err \<longrightarrow> printable err))"

definition host_printable :: "transport \<Rightarrow> bool" where
  "host_printable t =
     (case t of
        Stdio \<Rightarrow> True
      | Http env \<Rightarrow> (case chromium_executablePath env of Inl err \<Rightarrow> printable err | Inr path \<Rightarrow> True))"

text \<open>
  The host lets \<open>launchBrowser\<close> build its \<open>options\<close>: in production mode the lookup of
  the bundled browser's path returns.
\<close>

definition host_ready :: "transport \<Rightarrow> bool" where
  "host_ready t =
     (case t of
        Stdio \<Rightarrow> True
      | Http env \<Rightarrow> (if production env then \<not> isl (chromium_executablePath env) else True))"

text \<open>The JSON Schema type name of a value, and the type a descriptor declares for a field.\<close>

fun json_type :: "json \<Rightarrow> string" where
  "json_type JNull = ''null''"
| "json_type (JBool b) = ''boolean''"
| "json_type (JNum n) = ''number''"
| "json_type (JStr s) = ''string''"
| "json_type (JArr xs) = ''array''"
| "json_type (JObj kvs) = ''object''"

definition declared_type :: "tool \<Rightarrow> string \<Rightarrow> json option" where
  "declared_type d k =
     (case get_prop (inputSchema d) ''properties'' of
        None \<Rightarrow> None
      | Some ps \<Rightarrow> (case get_prop ps k of None \<Rightarrow> None | Some p \<Rightarrow> get_prop p ''type''))"

section \<open>Sample surroundings for the concrete instances\<close>

text \<open>
  A library whose URL parser accepts one address, an engine whose calls all return, an
  engine that closes a browser but throws on every other call, a host in development
  mode with one browser installed, and a session with a browser and a page open.
\<close>

definition sample_lib :: lib where
  "sample_lib =
     \<lparr>url_ok = (\<lambda>u. u = ''https://example.com''),
      zod_message = (\<lambda>issues. ''invalid arguments''),
      base64 = (\<lambda>data. ''iVBORw==''),
      json_stringify = (\<lambda>v. ''2'')\<rparr>"

definition sample_engine :: engine where
  "sample_engine =
     \<lparr>browser_close = (\<lambda>b. None),
      puppeteer_launch = (\<lambda>options. Inr 1),
      browser_newPage = (\<lambda>b. Inr 2),
      page_goto = (\<lambda>p url waitUntil. None),
      page_screenshot = (\<lambda>p options. Inr (Some [137, 80, 78, 71])),
      page_query = (\<lambda>p sel. Inr None),
      element_textContent = (\<lambda>p el. Inr None),
      body_textContent = (\<lambda>p. Inr None),
      page_click = (\<lambda>p sel. None),
      page_type = (\<lambda>p sel txt. None),
      page_evaluate = (\<lambda>p script. Inr (Some (JNum 2)))\<rparr>"

definition failing_engine :: engine where
  "failing_engine =
     \<lparr>browser_close = (\<lambda>b. None),
      puppeteer_launch = (\<lambda>options. Inl (ErrorObj ''Failed to launch the browser process'')),
      browser_newPage = (\<lambda>b. Inl (ErrorObj ''Target closed'')),
      page_goto = (\<lambda>p url waitUntil. Some (ErrorObj ''Target closed'')),
      page_screenshot = (\<lambda>p options. Inl (ErrorObj ''Target closed'')),
      page_query = (\<lambda>p sel. Inl (ErrorObj ''Target closed'')),
      element_textContent = (\<lambda>p el. Inl (ErrorObj ''Target closed'')),
      body_textContent = (\<lambda>p. Inl (ErrorObj ''Target closed'')),
      page_click = (\<lambda>p sel. Some (ErrorObj ''Target closed'')),
      page_type = (\<lambda>p sel txt. Some (ErrorObj ''Target closed'')),
      page_evaluate = (\<lambda>p script. Inl (ErrorObj ''Target closed''))\<rparr>"

definition sample_env :: host_env where
  "sample_env =
     \<lparr>production = False,
      chromium_args = [],
      chromium_defaultViewport = None,
      chromium_executablePath = Inr None,
      existsSync = (\<lambda>path. path = ''/usr/bin/google-chrome'')\<rparr>"

definition ready :: session where
  "ready = \<lparr>browser = Some 1, page = Some 2, calls = []\<rparr>"

section \<open>The catalog\<close>

text \<open>
  Claim C9. The list handler returns the same catalog under both transports and leaves
  the session as it was, whatever the session is. The catalog has exactly eight
  descriptors, in this order, with these required fields: \<open>navigate\<close> requires \<open>url\<close>,
  \<open>click\<close> requires \<open>selector\<close>, \<open>type\<close> requires \<open>selector\<close> and \<open>text\<close>, \<open>evaluate\<close>
  requires \<open>script\<close>, and \<open>launch\<close>, \<open>screenshot\<close>, \<open>get_text\<close> and \<open>close\<close> require
  nothing. The source names each tool with the prefix \<open>puppeteer_\<close>.
\<close>

theorem catalog_lists_eight_tools:
  "tools_http = tools
   \<and> (\<forall>t s. listTools t s = (tools, s))
   \<and> length tools = 8
   \<and> map (\<lambda>d. (tool_name d, required_fields d)) tools =
       [(''puppeteer_launch'', []),
        (''puppeteer_navigate'', [''url'']),
        (''puppeteer_screenshot'', []),
        (''puppeteer_get_text'', []),
        (''puppeteer_click'', [''selector'']),
        (''puppeteer_type'', [''selector'', ''text'']),
        (''puppeteer_evaluate'', [''script'']),
        (''puppeteer_close'', [])]"
proof (intro conjI allI)
  show same: "tools_http = tools"
    unfolding tools_http_def tools_def by (rule refl)
  show "listTools t s = (tools, s)" for t s
    by (cases t) (simp_all add: listTools_def same)
  show "length tools = 8"
    by (simp add: tools_def)
  show "map (\<lambda>d. (tool_name d, required_fields d)) tools =
       [(''puppeteer_launch'', []),
        (''puppeteer_navigate'', [''url'']),
        (''puppeteer_screenshot'', []),
        (''puppeteer_get_text'', []),
        (''puppeteer_click'', [''selector'']),
        (''puppeteer_type'', [''selector'', ''text'']),
        (''puppeteer_evaluate'', [''script'']),
        (''puppeteer_close'', [])]"
    by (simp add: tools_def required_fields_def)
qed

section \<open>Page tools before launch\<close>

lemma ensure_not_launched:
  "browser s = None \<Longrightarrow> ensureBrowserAndPage e s = (Inl not_launched, s)"
  by (simp add: ensureBrowserAndPage_def not_launched_def)

lemma navigate_not_launched:
  "browser s = None \<Longrightarrow> \<not> isl (NavigateSchema L a) \<Longrightarrow> navigate L e a s = (Inl not_launched, s)"
  by (cases "NavigateSchema L a") (auto simp: navigate_def ensure_not_launched)

lemma screenshot_not_launched:
  "browser s = None \<Longrightarrow> \<not> isl (ScreenshotSchema a) \<Longrightarrow> screenshot L e a s = (Inl not_launched, s)"
  by (cases "ScreenshotSchema a") (auto simp: screenshot_def ensure_not_launched)

lemma getText_not_launched:
  "browser s = None \<Longrightarrow> \<not> isl (GetTextSchema a) \<Longrightarrow> getText e a s = (Inl not_launched, s)"
  by (cases "GetTextSchema a") (auto simp: getText_def ensure_not_launched)

lemma click_not_launched:
  "browser s = None \<Longrightarrow> \<not> isl (ClickSchema a) \<Longrightarrow> click e a s = (Inl not_launched, s)"
  by (cases "ClickSchema a") (auto simp: click_def ensure_not_launched)

lemma typeText_not_launched:
  "browser s = None \<Longrightarrow> \<not> isl (TypeSchema a) \<Longrightarrow> typeText e a s = (Inl not_launched, s)"
  by (cases "TypeSchema a") (auto simp: typeText_def ensure_not_launched)

lemma evaluate_not_launched:
  "browser s = None \<Longrightarrow> \<not> isl (EvaluateSchema a) \<Longrightarrow> evaluate L e a s = (Inl not_launched, s)"
  by (cases "EvaluateSchema a") (auto simp: evaluate_def ensure_not_launched)

lemma dispatch_not_launched:
  assumes "name \<in> set page_tools" and "valid_args L name a" and "browser s = None"
  shows "dispatch L t e name a s = (Inl not_launched, s)"
proof -
  from assms(1) have "name = ''puppeteer_navigate'' \<or> name = ''puppeteer_screenshot''
    \<or> name = ''puppeteer_get_text'' \<or> name = ''puppeteer_click''
    \<or> name = ''puppeteer_type'' \<or> name = ''puppeteer_evaluate''"
    by (simp add: page_tools_def)
  then show ?thesis
  proof (elim disjE)
    assume "name = ''puppeteer_navigate''"
    with assms(2,3) show ?thesis
      by (simp add: valid_args_def dispatch_def navigate_not_launched)
  next
    assume "name = ''puppeteer_screenshot''"
    with assms(2,3) show ?thesis
      by (simp add: valid_args_def dispatch_def screenshot_not_launched)
  next
    assume "name = ''puppeteer_get_text''"
    with assms(2,3) show ?thesis
      by (simp add: valid_args_def dispatch_def getText_not_launched)
  next
    assume "name = ''puppeteer_click''"
    with assms(2,3) show ?thesis
      by (simp add: valid_args_def dispatch_def click_not_launched)
  next
    assume "name = ''puppeteer_type''"
    with assms(2,3) show ?thesis
      by (simp add: valid_args_def dispatch_def typeText_not_launched)
  next
    assume "name = ''puppeteer_evaluate''"
    with assms(2,3) show ?thesis
      by (simp add: valid_args_def dispatch_def evaluate_not_launched)
  qed
qed

text \<open>
  Claim C4. A page tool (navigate, screenshot, get_text, click, type, evaluate) called with
  arguments that pass its schema while the session holds no browser handle fails: the
  switch raises an error whose message contains \<open>not launched\<close>, the envelope is that
  message after \<open>Error: \<close>, and the session is returned as it was, so no browser handle and
  no page handle is created and the engine is not called.
\<close>

theorem page_tool_before_launch:
  assumes "name \<in> set page_tools" and "valid_args L name a" and "browser s = None"
  shows "\<exists>pre post.
           dispatch L t e name a s = (Inl (ErrorObj (pre @ ''not launched'' @ post)), s)
           \<and> callTool L t e name a s = (Inr [Text (''Error: '' @ pre @ ''not launched'' @ post)], s)
           \<and> pre @ ''not launched'' @ post = ''Browser not launched. Use puppeteer_launch first.''"
proof (intro exI conjI)
  show "dispatch L t e name a s
          = (Inl (ErrorObj (''Browser '' @ ''not launched'' @ ''. Use puppeteer_launch first.'')), s)"
    using dispatch_not_launched [OF assms, of t e] by (simp add: not_launched_def)
  then show "callTool L t e name a s
          = (Inr [Text (''Error: '' @ ''Browser '' @ ''not launched'' @ ''. Use puppeteer_launch first.'')], s)"
    by (simp add: callTool_def)
  show "''Browser '' @ ''not launched'' @ ''. Use puppeteer_launch first.''
          = ''Browser not launched. Use puppeteer_launch first.''"
    by simp
qed

theorem page_tool_before_launch_witness:
  "callTool sample_lib Stdio sample_engine ''puppeteer_get_text'' (Some []) initial
     = (Inr [Text ''Error: Browser not launched. Use puppeteer_launch first.''], initial)
   \<and> callTool sample_lib (Http sample_env) sample_engine ''puppeteer_navigate''
        (Some [(''url'', JStr ''https://example.com'')]) initial
     = (Inr [Text ''Error: Browser not launched. Use puppeteer_launch first.''], initial)"
proof -
  have g: "''puppeteer_get_text'' \<in> set page_tools" and n: "''puppeteer_navigate'' \<in> set page_tools"
    by (simp_all add: page_tools_def)
  have vg: "valid_args sample_lib ''puppeteer_get_text'' (Some [])"
    by (simp add: valid_args_def GetTextSchema_def)
  have vn: "valid_args sample_lib ''puppeteer_navigate'' (Some [(''url'', JStr ''https://example.com'')])"
    by (simp add: valid_args_def NavigateSchema_def sample_lib_def)
  have b: "browser initial = None"
    by (simp add: initial_def)
  show ?thesis
    using page_tool_before_launch [OF g vg b, of Stdio sample_engine]
      page_tool_before_launch [OF n vn b, of "Http sample_env" sample_engine]
    by auto
qed

section \<open>Validation comes first\<close>

lemma zod_string_issues: "zod_string k v = Inl issues \<Longrightarrow> issues \<noteq> []"
  by (cases "(k, v)" rule: zod_string.cases) auto

lemma zod_url_issues: "zod_url L k v = Inl issues \<Longrightarrow> issues \<noteq> []"
  by (cases "(L, k, v)" rule: zod_url.cases) (auto split: if_splits)

lemma zod_string_optional_issues: "zod_string_optional k v = Inl issues \<Longrightarrow> issues \<noteq> []"
  by (cases "(k, v)" rule: zod_string_optional.cases) auto

lemma zod_enum_default_issues: "zod_enum_default values d k v = Inl issues \<Longrightarrow> issues \<noteq> []"
  by (cases "(values, d, k, v)" rule: zod_enum_default.cases) (auto split: if_splits)

lemma zod_boolean_default_issues: "zod_boolean_default d k v = Inl issues \<Longrightarrow> issues \<noteq> []"
  by (cases "(d, k, v)" rule: zod_boolean_default.cases) auto

lemma zod_number_range_optional_issues:
  "zod_number_range_optional lo hi k v = Inl issues \<Longrightarrow> issues \<noteq> []"
  by (cases "(lo, hi, k, v)" rule: zod_number_range_optional.cases) (auto split: if_splits)

lemma NavigateSchema_issues: "NavigateSchema L a = Inl issues \<Longrightarrow> issues \<noteq> []"
  by (auto simp: NavigateSchema_def Let_def issues_of_def
        split: option.splits sum.splits
        dest: zod_url_issues zod_enum_default_issues)

lemma ScreenshotSchema_issues: "ScreenshotSchema a = Inl issues \<Longrightarrow> issues \<noteq> []"
  by (auto simp: ScreenshotSchema_def Let_def issues_of_def
        split: option.splits sum.splits
        dest: zod_boolean_default_issues zod_enum_default_issues zod_number_range_optional_issues)

lemma GetTextSchema_issues: "GetTextSchema a = Inl issues \<Longrightarrow> issues \<noteq> []"
  by (auto simp: GetTextSchema_def split: option.splits dest: zod_string_optional_issues)

lemma ClickSchema_issues: "ClickSchema a = Inl issues \<Longrightarrow> issues \<noteq> []"
  by (auto simp: ClickSchema_def split: option.splits dest: zod_string_issues)

lemma TypeSchema_issues: "TypeSchema a = Inl issues \<Longrightarrow> issues \<noteq> []"
  by (auto simp: TypeSchema_def Let_def issues_of_def
        split: option.splits sum.splits dest: zod_string_issues)

lemma EvaluateSchema_issues: "EvaluateSchema a = Inl issues \<Longrightarrow> issues \<noteq> []"
  by (auto simp: EvaluateSchema_def split: option.splits dest: zod_string_issues)

text \<open>The two examples of the specification do not pass their schemas.\<close>

lemma not_a_url_invalid:
  "\<not> url_ok L u \<Longrightarrow> \<not> valid_args L ''puppeteer_navigate'' (Some [(''url'', JStr u)])"
  by (simp add: valid_args_def NavigateSchema_def issues_of_def)

lemma quality_out_of_range_invalid:
  "q < 0 \<or> 100 < q \<Longrightarrow> \<not> valid_args L ''puppeteer_screenshot'' (Some [(''quality'', JNum q)])"
  by (auto simp: valid_args_def ScreenshotSchema_def issues_of_def)

lemma dispatch_invalid_args:
  assumes "name \<in> set page_tools" and "\<not> valid_args L name a"
  shows "\<exists>issues. issues \<noteq> [] \<and> dispatch L t e name a s = (Inl (ZodError issues), s)"
proof -
  from assms(1) have "name = ''puppeteer_navigate'' \<or> name = ''puppeteer_screenshot''
    \<or> name = ''puppeteer_get_text'' \<or> name = ''puppeteer_click''
    \<or> name = ''puppeteer_type'' \<or> name = ''puppeteer_evaluate''"
    by (simp add: page_tools_def)
  then show ?thesis
  proof (elim disjE)
    assume 1: "name = ''puppeteer_navigate''"
    with assms(2) obtain issues where p: "NavigateSchema L a = Inl issues"
      by (cases "NavigateSchema L a") (auto simp: valid_args_def)
    with 1 show ?thesis
      using NavigateSchema_issues [OF p] by (simp add: dispatch_def navigate_def)
  next
    assume 2: "name = ''puppeteer_screenshot''"
    with assms(2) obtain issues where p: "ScreenshotSchema a = Inl issues"
      by (cases "ScreenshotSchema a") (auto simp: valid_args_def)
    with 2 show ?thesis
      using ScreenshotSchema_issues [OF p] by (simp add: dispatch_def screenshot_def)
  next
    assume 3: "name = ''puppeteer_get_text''"
    with assms(2) obtain issues where p: "GetTextSchema a = Inl issues"
      by (cases "GetTextSchema a") (auto simp: valid_args_def)
    with 3 show ?thesis
      using GetTextSchema_issues [OF p] by (simp add: dispatch_def getText_def)
  next
    assume 4: "name = ''puppeteer_click''"
    with assms(2) obtain issues where p: "ClickSchema a = Inl issues"
      by (cases "ClickSchema a") (auto simp: valid_args_def)
    with 4 show ?thesis
      using ClickSchema_issues [OF p] by (simp add: dispatch_def click_def)
  next
    assume 5: "name = ''puppeteer_type''"
    with assms(2) obtain issues where p: "TypeSchema a = Inl issues"
      by (cases "TypeSchema a") (auto simp: valid_args_def)
    with 5 show ?thesis
      using TypeSchema_issues [OF p] by (simp add: dispatch_def typeText_def)
  next
    assume 6: "name = ''puppeteer_evaluate''"
    with assms(2) obtain issues where p: "EvaluateSchema a = Inl issues"
      by (cases "EvaluateSchema a") (auto simp: valid_args_def)
    with 6 show ?thesis
      using EvaluateSchema_issues [OF p] by (simp add: dispatch_def evaluate_def)
  qed
qed

text \<open>
  For each of the six tools that parse their arguments with a schema (navigate,
  screenshot, get_text, click, type, evaluate), arguments that do not pass the schema
  make the call fail with the schema library's error, which lists at least one issue; the
  envelope is that error's message after \<open>Error: \<close>; and the session is returned as it
  was, whether or not a browser is open, so no session operation and no engine call has
  run.
\<close>

lemma invalid_arguments_rejected:
  assumes "name \<in> set page_tools" and "\<not> valid_args L name a"
  shows "\<exists>issues. issues \<noteq> []
           \<and> dispatch L t e name a s = (Inl (ZodError issues), s)
           \<and> callTool L t e name a s = (Inr [Text (''Error: '' @ zod_message L issues)], s)"
proof -
  from dispatch_invalid_args [OF assms, of t e s]
  obtain issues where "issues \<noteq> []" and d: "dispatch L t e name a s = (Inl (ZodError issues), s)"
    by auto
  then show ?thesis
    by (auto simp: callTool_def)
qed

lemma invalid_arguments_rejected_examples:
  "callTool sample_lib Stdio sample_engine ''puppeteer_navigate'' (Some [(''url'', JStr ''not a url'')]) initial
     = (Inr [Text ''Error: invalid arguments''], initial)
   \<and> callTool sample_lib Stdio sample_engine ''puppeteer_screenshot''
        (Some [(''format'', JStr ''jpeg''), (''quality'', JNum 150)]) initial
     = (Inr [Text ''Error: invalid arguments''], initial)"
proof -
  have n: "''puppeteer_navigate'' \<in> set page_tools" and s: "''puppeteer_screenshot'' \<in> set page_tools"
    by (simp_all add: page_tools_def)
  have vn: "\<not> valid_args sample_lib ''puppeteer_navigate'' (Some [(''url'', JStr ''not a url'')])"
    by (simp add: valid_args_def NavigateSchema_def issues_of_def sample_lib_def)
  have vs: "\<not> valid_args sample_lib ''puppeteer_screenshot''
               (Some [(''format'', JStr ''jpeg''), (''quality'', JNum 150)])"
    by (simp add: valid_args_def ScreenshotSchema_def issues_of_def)
  show ?thesis
    using invalid_arguments_rejected [OF n vn, of Stdio sample_engine initial]
      invalid_arguments_rejected [OF s vs, of Stdio sample_engine initial]
    by (auto simp: sample_lib_def)
qed

text \<open>
  Claim C5 does not hold of the code. The six page operations start with a parse of
  their arguments, \<open>launchBrowser\<close> does not: the catalog declares \<open>headless\<close> a boolean,
  and a \<open>launch\<close> call with \<open>headless\<close> set to the string \<open>no\<close> is not rejected. It
  launches a browser with that string as \<open>headless\<close>, stores both handles and answers
  with a success text, where \<open>screenshot\<close>, given a string for its boolean \<open>fullPage\<close>,
  answers with the schema library's error and leaves the session as it was.
\<close>

theorem launch_arguments_not_validated:
  "tool_name (tools ! 0) = ''puppeteer_launch''
   \<and> declared_type (tools ! 0) ''headless'' = Some (JStr ''boolean'')
   \<and> json_type (JStr ''no'') = ''string''
   \<and> callTool sample_lib Stdio sample_engine ''puppeteer_launch'' (Some [(''headless'', JStr ''no'')]) initial
     = (Inr [Text ''Browser launched successfully in headless mode''],
        \<lparr>browser = Some 1, page = Some 2,
         calls = [CLaunch \<lparr>lo_headless = JStr ''no'', lo_defaultViewport = None, lo_args = None,
                           lo_executablePath = None\<rparr>,
                  CNewPage 1]\<rparr>)
   \<and> callTool sample_lib Stdio sample_engine ''puppeteer_screenshot'' (Some [(''fullPage'', JStr ''no'')]) initial
     = (Inr [Text ''Error: invalid arguments''], initial)"
  by (simp add: tools_def declared_type_def callTool_def dispatch_def launchBrowser_def
        launchBrowser_with_def launchOptions_def with_viewport_def initial_def logged_def
        sample_engine_def screenshot_def ScreenshotSchema_def issues_of_def sample_lib_def)

section \<open>The executor's catch\<close>

lemma unknown_tool_dispatch:
  "name \<notin> set (map tool_name tools) \<Longrightarrow>
     dispatch L t e name a s = (Inl (ErrorObj (''Unknown tool: '' @ name)), s)"
  by (simp add: tools_def dispatch_def)

lemma snd_callTool: "snd (callTool L t e name a s) = snd (dispatch L t e name a s)"
  by (simp add: callTool_def split: prod.splits sum.splits)

lemma ep_close: "engine_printable e \<Longrightarrow> browser_close e b = Some err \<Longrightarrow> printable err"
  by (simp add: engine_printable_def)

lemma ep_launch: "engine_printable e \<Longrightarrow> puppeteer_launch e options = Inl err \<Longrightarrow> printable err"
  by (simp add: engine_printable_def)

lemma ep_newPage: "engine_printable e \<Longrightarrow> browser_newPage e b = Inl err \<Longrightarrow> printable err"
  by (simp add: engine_printable_def)

lemma ep_goto: "engine_printable e \<Longrightarrow> page_goto e p url waitUntil = Some err \<Longrightarrow> printable err"
  by (simp add: engine_printable_def)

lemma ep_screenshot: "engine_printable e \<Longrightarrow> page_screenshot e p options = Inl err \<Longrightarrow> printable err"
  by (simp add: engine_printable_def)

lemma ep_query: "engine_printable e \<Longrightarrow> page_query e p sel = Inl err \<Longrightarrow> printable err"
  by (simp add: engine_printable_def)

lemma ep_element: "engine_printable e \<Longrightarrow> element_textContent e p el = Inl err \<Longrightarrow> printable err"
  by (simp add: engine_printable_def)

lemma ep_body: "engine_printable e \<Longrightarrow> body_textContent e p = Inl err \<Longrightarrow> printable err"
  by (simp add: engine_printable_def)

lemma ep_click: "engine_printable e \<Longrightarrow> page_click e p sel = Some err \<Longrightarrow> printable err"
  by (simp add: engine_printable_def)

lemma ep_type: "engine_printable e \<Longrightarrow> page_type e p sel txt = Some err \<Longrightarrow> printable err"
  by (simp add: engine_printable_def)

lemma ep_evaluate: "engine_printable e \<Longrightarrow> page_evaluate e p script = Inl err \<Longrightarrow> printable err"
  by (simp add: engine_printable_def)

lemma printable_ensure:
  "engine_printable e \<Longrightarrow> fst (ensureBrowserAndPage e s) = Inl err \<Longrightarrow> printable err"
  by (auto simp: ensureBrowserAndPage_def split: option.splits sum.splits dest: ep_newPage)

lemma printable_options:
  "host_printable t \<Longrightarrow> options_for t a = Inl err \<Longrightarrow> printable err"
  by (auto simp: host_printable_def options_for_def launchOptions_def launchOptions_http_def
        cannot_read_def split: transport.splits option.splits sum.splits if_splits)

lemma printable_launch_with:
  assumes "engine_printable e" and "\<And>err. mk a = Inl err \<Longrightarrow> printable err"
    and "fst (launchBrowser_with mk e a s) = Inl err"
  shows "printable err"
  using assms
  by (auto simp: launchBrowser_with_def Let_def split: option.splits sum.splits
        dest: ep_close ep_launch ep_newPage)

lemma printable_close:
  "engine_printable e \<Longrightarrow> fst (closeBrowser e s) = Inl err \<Longrightarrow> printable err"
  by (auto simp: closeBrowser_def split: option.splits dest: ep_close)

lemma printable_navigate:
  "engine_printable e \<Longrightarrow> fst (navigate L e a s) = Inl err \<Longrightarrow> printable err"
  using printable_ensure [of e s]
  by (auto simp: navigate_def cannot_read_def
        split: sum.splits prod.splits option.splits dest: ep_goto)

lemma printable_screenshot:
  "engine_printable e \<Longrightarrow> fst (screenshot L e a s) = Inl err \<Longrightarrow> printable err"
  using printable_ensure [of e s]
  by (auto simp: screenshot_def Let_def cannot_read_def
        split: sum.splits prod.splits option.splits dest: ep_screenshot)

lemma printable_getText:
  "engine_printable e \<Longrightarrow> fst (getText e a s) = Inl err \<Longrightarrow> printable err"
  using printable_ensure [of e s]
  by (auto simp: getText_def Let_def cannot_read_def
        split: sum.splits prod.splits option.splits dest: ep_query ep_element ep_body)

lemma printable_click:
  "engine_printable e \<Longrightarrow> fst (click e a s) = Inl err \<Longrightarrow> printable err"
  using printable_ensure [of e s]
  by (auto simp: click_def cannot_read_def
        split: sum.splits prod.splits option.splits dest: ep_click)

lemma printable_typeText:
  "engine_printable e \<Longrightarrow> fst (typeText e a s) = Inl err \<Longrightarrow> printable err"
  using printable_ensure [of e s]
  by (auto simp: typeText_def cannot_read_def
        split: sum.splits prod.splits option.splits dest: ep_type)

lemma printable_evaluate:
  "engine_printable e \<Longrightarrow> fst (evaluate L e a s) = Inl err \<Longrightarrow> printable err"
  using printable_ensure [of e s]
  by (auto simp: evaluate_def cannot_read_def
        split: sum.splits prod.splits option.splits dest: ep_evaluate)

lemma options_for_Stdio: "options_for Stdio = launchOptions"
  by (rule ext) (simp add: options_for_def)

lemma options_for_Http: "options_for (Http env) = launchOptions_http env"
  by (rule ext) (simp add: options_for_def)

lemma dispatch_launch:
  "dispatch L t e ''puppeteer_launch'' a s = launchBrowser_with (options_for t) e a s"
  by (cases t)
    (simp_all add: dispatch_def launchBrowser_def launchBrowser_http_def options_for_Stdio options_for_Http)

lemma printable_dispatch:
  assumes "engine_printable e" and "host_printable t" and "fst (dispatch L t e name a s) = Inl err"
  shows "printable err"
proof (cases "name = ''puppeteer_launch''")
  case True
  with assms(3) have "fst (launchBrowser_with (options_for t) e a s) = Inl err"
    by (simp add: dispatch_launch)
  then show ?thesis
    using printable_launch_with [OF assms(1), of "options_for t" a s err] printable_options [OF assms(2)]
    by blast
next
  case False
  then have "dispatch L t e name a s = navigate L e a s
      \<or> dispatch L t e name a s = screenshot L e a s
      \<or> dispatch L t e name a s = getText e a s
      \<or> dispatch L t e name a s = click e a s
      \<or> dispatch L t e name a s = typeText e a s
      \<or> dispatch L t e name a s = evaluate L e a s
      \<or> dispatch L t e name a s = closeBrowser e s
      \<or> dispatch L t e name a s = (Inl (ErrorObj (''Unknown tool: '' @ name)), s)"
    by (simp add: dispatch_def)
  then show ?thesis
  proof (elim disjE)
    assume "dispatch L t e name a s = navigate L e a s"
    with assms(3) show ?thesis using printable_navigate [OF assms(1)] by simp
  next
    assume "dispatch L t e name a s = screenshot L e a s"
    with assms(3) show ?thesis using printable_screenshot [OF assms(1)] by simp
  next
    assume "dispatch L t e name a s = getText e a s"
    with assms(3) show ?thesis using printable_getText [OF assms(1)] by simp
  next
    assume "dispatch L t e name a s = click e a s"
    with assms(3) show ?thesis using printable_click [OF assms(1)] by simp
  next
    assume "dispatch L t e name a s = typeText e a s"
    with assms(3) show ?thesis using printable_typeText [OF assms(1)] by simp
  next
    assume "dispatch L t e name a s = evaluate L e a s"
    with assms(3) show ?thesis using printable_evaluate [OF assms(1)] by simp
  next
    assume "dispatch L t e name a s = closeBrowser e s"
    with assms(3) show ?thesis using printable_close [OF assms(1)] by simp
  next
    assume "dispatch L t e name a s = (Inl (ErrorObj (''Unknown tool: '' @ name)), s)"
    with assms(3) show ?thesis by auto
  qed
qed

lemma message_printable: "printable err \<Longrightarrow> \<exists>m. message L err = Inr m"
  by (cases err) simp_all

text \<open>
  Claim C3, as stated, says the handler never raises. The \<open>catch\<close> block converts a
  thrown value that is not an \<open>Error\<close> with \<open>String(error)\<close>, and that conversion throws
  for a value without a usable \<open>toString\<close>: when the engine rejects an \<open>evaluate\<close> call
  with such a value, the handler itself raises the conversion's TypeError and returns no
  envelope.
\<close>

theorem executor_raises_on_unprintable_counterexample:
  "callTool sample_lib Stdio
     (sample_engine\<lparr>page_evaluate :=
        (\<lambda>p script. Inl (Unprintable (ErrorObj ''Cannot convert object to primitive value'')))\<rparr>)
     ''puppeteer_evaluate'' (Some [(''script'', JStr ''throw Object.create(null)'')]) ready
   = (Inl (ErrorObj ''Cannot convert object to primitive value''),
      \<lparr>browser = Some 1, page = Some 2, calls = [CEvaluate 2 ''throw Object.create(null)'']\<rparr>)"
  by (simp add: callTool_def dispatch_def evaluate_def EvaluateSchema_def ensureBrowserAndPage_def
        ready_def logged_def sample_engine_def)

text \<open>
  Claim C3, amended. When every value thrown by the engine, and by the host's lookup of
  the browser path, is an \<open>Error\<close> or a value that \<open>String\<close> converts, the call handler
  never raises: it returns an envelope. An \<open>Error\<close> raised in the switch (by validation,
  by the session or by the engine) becomes the one text item \<open>Error: \<close> followed by its
  message, which for the schema library's error is that library's rendering of the
  issues; any other thrown value becomes \<open>Error: \<close> followed by its string form; what the
  switch returns is passed on unchanged; and a name outside the catalog gives the one
  text item \<open>Error: Unknown tool: \<close> followed by the name, with the session unchanged.
\<close>

theorem executor_converts_failures:
  assumes "engine_printable e" and "host_printable t"
  shows "(\<exists>items. fst (callTool L t e name a s) = Inr items)
   \<and> (\<forall>m. fst (dispatch L t e name a s) = Inl (ErrorObj m) \<longrightarrow>
          fst (callTool L t e name a s) = Inr [Text (''Error: '' @ m)])
   \<and> (\<forall>issues. fst (dispatch L t e name a s) = Inl (ZodError issues) \<longrightarrow>
          fst (callTool L t e name a s) = Inr [Text (''Error: '' @ zod_message L issues)])
   \<and> (\<forall>str. fst (dispatch L t e name a s) = Inl (NonError str) \<longrightarrow>
          fst (callTool L t e name a s) = Inr [Text (''Error: '' @ str)])
   \<and> (\<forall>envelope. fst (dispatch L t e name a s) = Inr envelope \<longrightarrow>
          fst (callTool L t e name a s) = Inr envelope)
   \<and> (name \<notin> set (map tool_name tools) \<longrightarrow>
          callTool L t e name a s = (Inr [Text (''Error: Unknown tool: '' @ name)], s))"
proof (intro conjI allI impI)
  show "\<exists>items. fst (callTool L t e name a s) = Inr items"
  proof (cases "dispatch L t e name a s")
    case (Pair r s1)
    show ?thesis
    proof (cases r)
      case (Inl err)
      with Pair have "printable err"
        using printable_dispatch [OF assms, of L name a s err] by simp
      then obtain m where "message L err = Inr m"
        using message_printable by blast
      with Pair Inl show ?thesis
        by (simp add: callTool_def)
    next
      case (Inr envelope)
      with Pair show ?thesis
        by (simp add: callTool_def)
    qed
  qed
  show "fst (callTool L t e name a s) = Inr [Text (''Error: '' @ m)]"
    if "fst (dispatch L t e name a s) = Inl (ErrorObj m)" for m
    using that by (cases "dispatch L t e name a s") (simp add: callTool_def)
  show "fst (callTool L t e name a s) = Inr [Text (''Error: '' @ zod_message L issues)]"
    if "fst (dispatch L t e name a s) = Inl (ZodError issues)" for issues
    using that by (cases "dispatch L t e name a s") (simp add: callTool_def)
  show "fst (callTool L t e name a s) = Inr [Text (''Error: '' @ str)]"
    if "fst (dispatch L t e name a s) = Inl (NonError str)" for str
    using that by (cases "dispatch L t e name a s") (simp add: callTool_def)
  show "fst (callTool L t e name a s) = Inr envelope"
    if "fst (dispatch L t e name a s) = Inr envelope" for envelope
    using that by (cases "dispatch L t e name a s") (simp add: callTool_def)
  show "callTool L t e name a s = (Inr [Text (''Error: Unknown tool: '' @ name)], s)"
    if "name \<notin> set (map tool_name tools)"
    using unknown_tool_dispatch [OF that, of L t e a s] by (simp add: callTool_def)
qed


theorem executor_converts_failures_witness:
  "callTool sample_lib Stdio sample_engine ''puppeteer_reload'' None initial
     = (Inr [Text ''Error: Unknown tool: puppeteer_reload''], initial)
   \<and> fst (callTool sample_lib Stdio sample_engine ''puppeteer_navigate''
            (Some [(''url'', JStr ''not a url'')]) ready)
     = Inr [Text ''Error: invalid arguments'']
   \<and> fst (callTool sample_lib Stdio sample_engine ''puppeteer_click''
            (Some [(''selector'', JStr ''#go'')]) initial)
     = Inr [Text ''Error: Browser not launched. Use puppeteer_launch first.'']
   \<and> fst (callTool sample_lib Stdio failing_engine ''puppeteer_get_text'' (Some []) ready)
     = Inr [Text ''Error: Target closed'']
   \<and> fst (callTool sample_lib Stdio
            (sample_engine\<lparr>page_evaluate := (\<lambda>p script. Inl (NonError ''42''))\<rparr>)
            ''puppeteer_evaluate'' (Some [(''script'', JStr ''throw 42'')]) ready)
     = Inr [Text ''Error: 42'']
   \<and> fst (callTool sample_lib Stdio sample_engine ''puppeteer_close'' None ready)
     = Inr [Text ''Browser closed successfully'']"
proof -
  let ?thrower = "sample_engine\<lparr>page_evaluate := (\<lambda>p script. Inl (NonError ''42''))\<rparr>"
  have ps: "engine_printable sample_engine" and pf: "engine_printable failing_engine"
    and pt: "engine_printable ?thrower"
    by (simp_all add: engine_printable_def sample_engine_def failing_engine_def)
  have h: "host_printable Stdio"
    by (simp add: host_printable_def)
  have u: "''puppeteer_reload'' \<notin> set (map tool_name tools)"
    by (simp add: tools_def)
  have d1: "fst (dispatch sample_lib Stdio sample_engine ''puppeteer_navigate''
                  (Some [(''url'', JStr ''not a url'')]) ready)
             = Inl (ZodError [ZodIssue invalid_string [''url'']])"
    by (simp add: dispatch_def navigate_def NavigateSchema_def issues_of_def sample_lib_def)
  have d2: "fst (dispatch sample_lib Stdio sample_engine ''puppeteer_click''
                  (Some [(''selector'', JStr ''#go'')]) initial)
             = Inl (ErrorObj ''Browser not launched. Use puppeteer_launch first.'')"
    by (simp add: dispatch_def click_def ClickSchema_def ensureBrowserAndPage_def initial_def)
  have d3: "fst (dispatch sample_lib Stdio failing_engine ''puppeteer_get_text'' (Some []) ready)
             = Inl (ErrorObj ''Target closed'')"
    by (simp add: dispatch_def getText_def GetTextSchema_def ensureBrowserAndPage_def ready_def
          selector_given_def failing_engine_def logged_def)
  have d4: "fst (dispatch sample_lib Stdio ?thrower ''puppeteer_evaluate''
                  (Some [(''script'', JStr ''throw 42'')]) ready)
             = Inl (NonError ''42'')"
    by (simp add: dispatch_def evaluate_def EvaluateSchema_def ensureBrowserAndPage_def ready_def
          logged_def sample_engine_def)
  have d5: "fst (dispatch sample_lib Stdio sample_engine ''puppeteer_close'' None ready)
             = Inr [Text ''Browser closed successfully'']"
    by (simp add: dispatch_def closeBrowser_def ready_def sample_engine_def)
  show ?thesis
    using executor_converts_failures [OF ps h, of sample_lib "''puppeteer_reload''" None initial]
      executor_converts_failures [OF ps h, of sample_lib "''puppeteer_navigate''"
        "Some [(''url'', JStr ''not a url'')]" ready]
      executor_converts_failures [OF ps h, of sample_lib "''puppeteer_click''"
        "Some [(''selector'', JStr ''#go'')]" initial]
      executor_converts_failures [OF pf h, of sample_lib "''puppeteer_get_text''" "Some []" ready]
      executor_converts_failures [OF pt h, of sample_lib "''puppeteer_evaluate''"
        "Some [(''script'', JStr ''throw 42'')]" ready]
      executor_converts_failures [OF ps h, of sample_lib "''puppeteer_close''" None ready]
      u d1 d2 d3 d4 d5
    by (simp add: sample_lib_def)
qed

section \<open>The session invariant\<close>

lemma inv_logged [simp]: "session_inv (logged c s) = session_inv s"
  by (simp add: session_inv_def logged_def)

lemma inv_ensure: "session_inv s \<Longrightarrow> session_inv (snd (ensureBrowserAndPage e s))"
  by (auto simp: ensureBrowserAndPage_def session_inv_def logged_def split: option.splits sum.splits)

lemma inv_launch_with: "session_inv s \<Longrightarrow> session_inv (snd (launchBrowser_with mk e a s))"
  by (auto simp: launchBrowser_with_def Let_def session_inv_def logged_def
        split: option.splits sum.splits)

lemma inv_close: "session_inv s \<Longrightarrow> session_inv (snd (closeBrowser e s))"
  by (auto simp: closeBrowser_def session_inv_def logged_def split: option.splits)

lemma inv_navigate: "session_inv s \<Longrightarrow> session_inv (snd (navigate L e a s))"
  using inv_ensure [of s e]
  by (auto simp: navigate_def split: sum.splits prod.splits option.splits)

lemma inv_screenshot: "session_inv s \<Longrightarrow> session_inv (snd (screenshot L e a s))"
  using inv_ensure [of s e]
  by (auto simp: screenshot_def Let_def split: sum.splits prod.splits option.splits)

lemma inv_getText: "session_inv s \<Longrightarrow> session_inv (snd (getText e a s))"
  using inv_ensure [of s e]
  by (auto simp: getText_def Let_def split: sum.splits prod.splits option.splits)

lemma inv_click: "session_inv s \<Longrightarrow> session_inv (snd (click e a s))"
  using inv_ensure [of s e]
  by (auto simp: click_def split: sum.splits prod.splits option.splits)

lemma inv_typeText: "session_inv s \<Longrightarrow> session_inv (snd (typeText e a s))"
  using inv_ensure [of s e]
  by (auto simp: typeText_def split: sum.splits prod.splits option.splits)

lemma inv_evaluate: "session_inv s \<Longrightarrow> session_inv (snd (evaluate L e a s))"
  using inv_ensure [of s e]
  by (auto simp: evaluate_def split: sum.splits prod.splits option.splits)

lemma inv_dispatch: "session_inv s \<Longrightarrow> session_inv (snd (dispatch L t e name a s))"
  by (simp add: dispatch_def launchBrowser_def launchBrowser_http_def inv_launch_with inv_close
        inv_navigate inv_screenshot inv_getText inv_click inv_typeText inv_evaluate
        split: transport.splits)

text \<open>
  Claim C8. A page handle is present only when a browser handle is: this holds of the
  initial session and, when it holds before, it holds after \<open>ensureBrowserAndPage\<close>, after
  \<open>launchBrowser\<close> of either server, after \<open>closeBrowser\<close>, and after any call of the
  handler (so after every page operation too), whether the operation returns or raises
  partway.
\<close>

theorem session_invariant_preserved:
  "session_inv initial
   \<and> (session_inv s \<longrightarrow>
        session_inv (snd (ensureBrowserAndPage e s))
        \<and> session_inv (snd (launchBrowser e a s))
        \<and> session_inv (snd (launchBrowser_http env e a s))
        \<and> session_inv (snd (closeBrowser e s))
        \<and> session_inv (snd (callTool L t e name a s)))"
  by (simp add: initial_def session_inv_def [of "\<lparr>browser = None, page = None, calls = []\<rparr>"]
        inv_ensure launchBrowser_def launchBrowser_http_def inv_launch_with inv_close
        snd_callTool inv_dispatch)

theorem session_invariant_preserved_witness:
  "session_inv initial
   \<and> session_inv ready
   \<and> session_inv (snd (callTool sample_lib Stdio failing_engine ''puppeteer_launch'' (Some []) ready))
   \<and> session_inv (snd (callTool sample_lib Stdio sample_engine ''puppeteer_close'' None ready))"
proof -
  have r: "session_inv ready"
    by (simp add: session_inv_def ready_def)
  show ?thesis
    using r
      session_invariant_preserved [of ready failing_engine "Some []" sample_env sample_lib Stdio
        "''puppeteer_launch''"]
      session_invariant_preserved [of ready sample_engine None sample_env sample_lib Stdio
        "''puppeteer_close''"]
    by simp
qed

section \<open>Reading text\<close>

lemma ensure_ready:
  assumes "browser s = Some b"
    and "page s = Some p \<or> (page s = None \<and> browser_newPage e b = Inr p)"
  shows "\<exists>s1. ensureBrowserAndPage e s = (Inr (), s1) \<and> page s1 = Some p \<and> browser s1 = Some b"
  using assms by (auto simp: ensureBrowserAndPage_def logged_def)

text \<open>
  Claim C6, as stated, fails in four ways. A \<open>get_text\<close> call without a selector
  returns an error, not the text of the body, when no browser is open, when the engine
  throws while reading the body, and when the call carries no argument object. A selector
  that is the empty string is tested with \<open>if (selector)\<close> and counts as no selector: the
  engine is never asked for an element, and the call returns the page text even under an
  engine that finds no element for any selector.
\<close>

theorem getText_counterexample:
  "callTool sample_lib Stdio sample_engine ''puppeteer_get_text'' (Some []) initial
     = (Inr [Text ''Error: Browser not launched. Use puppeteer_launch first.''], initial)
   \<and> callTool sample_lib Stdio failing_engine ''puppeteer_get_text'' (Some []) ready
     = (Inr [Text ''Error: Target closed''],
        \<lparr>browser = Some 1, page = Some 2, calls = [CBodyText 2]\<rparr>)
   \<and> callTool sample_lib Stdio sample_engine ''puppeteer_get_text'' None ready
     = (Inr [Text ''Error: invalid arguments''], ready)
   \<and> page_query sample_engine 2 [] = Inr None
   \<and> callTool sample_lib Stdio sample_engine ''puppeteer_get_text'' (Some [(''selector'', JStr [])]) ready
     = (Inr [Text ''Page text: ''],
        \<lparr>browser = Some 1, page = Some 2, calls = [CBodyText 2]\<rparr>)"
  by (simp add: callTool_def dispatch_def getText_def GetTextSchema_def selector_given_def
        text_or_empty_def ensureBrowserAndPage_def initial_def ready_def logged_def
        sample_engine_def failing_engine_def sample_lib_def)

text \<open>
  Claim C6, amended. Take a \<open>get_text\<close> call with an argument object, on a session with
  a browser open and a page \<open>p\<close> at hand (already open, or opened by
  \<open>ensureBrowserAndPage\<close>). If the arguments give a selector that is not the empty
  string and the engine finds no element for it, the call asks the engine for that
  selector only and fails with the error \<open>Element not found: \<close> followed by the selector.
  If the arguments give no selector and the engine returns the text content of the
  document body, the call reads the body only and returns exactly that text after
  \<open>Page text: \<close>; an absent text content gives the empty string after \<open>Page text: \<close>, not
  an error.
\<close>

theorem getText_missing_element_and_body_text:
  assumes "browser s = Some b"
    and "page s = Some p \<or> (page s = None \<and> browser_newPage e b = Inr p)"
  shows "(sel \<noteq> [] \<and> map_of obj ''selector'' = Some (JStr sel) \<and> page_query e p sel = Inr None \<longrightarrow>
            fst (getText e (Some obj) s) = Inl (ErrorObj (''Element not found: '' @ sel))
            \<and> fst (callTool L t e ''puppeteer_get_text'' (Some obj) s)
                  = Inr [Text (''Error: Element not found: '' @ sel)]
            \<and> new_calls s (snd (callTool L t e ''puppeteer_get_text'' (Some obj) s))
                  = (case page s of None \<Rightarrow> [CNewPage b] | Some old \<Rightarrow> []) @ [CQuery p sel])
         \<and> (map_of obj ''selector'' = None \<and> body_textContent e p = Inr (Some txt) \<longrightarrow>
            fst (getText e (Some obj) s) = Inr [Text (''Page text: '' @ txt)]
            \<and> fst (callTool L t e ''puppeteer_get_text'' (Some obj) s)
                  = Inr [Text (''Page text: '' @ txt)]
            \<and> new_calls s (snd (callTool L t e ''puppeteer_get_text'' (Some obj) s))
                  = (case page s of None \<Rightarrow> [CNewPage b] | Some old \<Rightarrow> []) @ [CBodyText p])
         \<and> (map_of obj ''selector'' = None \<and> body_textContent e p = Inr None \<longrightarrow>
            fst (getText e (Some obj) s) = Inr [Text ''Page text: '']
            \<and> fst (callTool L t e ''puppeteer_get_text'' (Some obj) s)
                  = Inr [Text ''Page text: '']
            \<and> new_calls s (snd (callTool L t e ''puppeteer_get_text'' (Some obj) s))
                  = (case page s of None \<Rightarrow> [CNewPage b] | Some old \<Rightarrow> []) @ [CBodyText p])"
proof -
  let ?opened = "case page s of None \<Rightarrow> [CNewPage b] | Some old \<Rightarrow> []"
  from assms obtain s1
    where en: "ensureBrowserAndPage e s = (Inr (), s1)" and pg: "page s1 = Some p"
      and cs: "calls s1 = calls s @ ?opened"
    by (auto simp: ensureBrowserAndPage_def logged_def)
  have ct: "callTool L t e ''puppeteer_get_text'' (Some obj) s
              = (case getText e (Some obj) s of
                   (Inr envelope, s2) \<Rightarrow> (Inr envelope, s2)
                 | (Inl err, s2) \<Rightarrow>
                     (case message L err of
                        Inl raised \<Rightarrow> (Inl raised, s2)
                      | Inr m \<Rightarrow> (Inr [Text (''Error: '' @ m)], s2)))"
    by (simp add: callTool_def dispatch_def)
  have a: "getText e (Some obj) s
             = (Inl (ErrorObj (''Element not found: '' @ sel)), logged (CQuery p sel) s1)"
    if "sel \<noteq> []" "map_of obj ''selector'' = Some (JStr sel)" "page_query e p sel = Inr None"
    using that en pg by (simp add: getText_def GetTextSchema_def selector_given_def)
  have b: "getText e (Some obj) s
             = (Inr [Text (''Page text: '' @ text_or_empty r)], logged (CBodyText p) s1)"
    if "map_of obj ''selector'' = None" "body_textContent e p = Inr r" for r
    using that en pg by (simp add: getText_def GetTextSchema_def selector_given_def)
  show ?thesis
  proof (intro conjI impI)
    assume h: "sel \<noteq> [] \<and> map_of obj ''selector'' = Some (JStr sel) \<and> page_query e p sel = Inr None"
    then have g: "getText e (Some obj) s
             = (Inl (ErrorObj (''Element not found: '' @ sel)), logged (CQuery p sel) s1)"
      using a by simp
    show "fst (getText e (Some obj) s) = Inl (ErrorObj (''Element not found: '' @ sel))"
      by (simp add: g)
    show "fst (callTool L t e ''puppeteer_get_text'' (Some obj) s)
            = Inr [Text (''Error: Element not found: '' @ sel)]"
      by (simp add: ct g)
    show "new_calls s (snd (callTool L t e ''puppeteer_get_text'' (Some obj) s)) = ?opened @ [CQuery p sel]"
      by (simp add: ct g new_calls_def logged_def cs)
  next
    assume h: "map_of obj ''selector'' = None \<and> body_textContent e p = Inr (Some txt)"
    then have g: "getText e (Some obj) s = (Inr [Text (''Page text: '' @ txt)], logged (CBodyText p) s1)"
      using b [of "Some txt"] by (simp add: text_or_empty_def)
    show "fst (getText e (Some obj) s) = Inr [Text (''Page text: '' @ txt)]"
      by (simp add: g)
    show "fst (callTool L t e ''puppeteer_get_text'' (Some obj) s) = Inr [Text (''Page text: '' @ txt)]"
      by (simp add: ct g)
    show "new_calls s (snd (callTool L t e ''puppeteer_get_text'' (Some obj) s)) = ?opened @ [CBodyText p]"
      by (simp add: ct g new_calls_def logged_def cs)
  next
    assume h: "map_of obj ''selector'' = None \<and> body_textContent e p = Inr None"
    then have g: "getText e (Some obj) s = (Inr [Text ''Page text: ''], logged (CBodyText p) s1)"
      using b [of None] by (simp add: text_or_empty_def)
    show "fst (getText e (Some obj) s) = Inr [Text ''Page text: '']"
      by (simp add: g)
    show "fst (callTool L t e ''puppeteer_get_text'' (Some obj) s) = Inr [Text ''Page text: '']"
      by (simp add: ct g)
    show "new_calls s (snd (callTool L t e ''puppeteer_get_text'' (Some obj) s)) = ?opened @ [CBodyText p]"
      by (simp add: ct g new_calls_def logged_def cs)
  qed
qed

theorem getText_missing_element_and_body_text_witness:
  "callTool sample_lib Stdio sample_engine ''puppeteer_get_text''
          (Some [(''selector'', JStr ''#missing'')]) ready
     = (Inr [Text ''Error: Element not found: #missing''],
        \<lparr>browser = Some 1, page = Some 2, calls = [CQuery 2 ''#missing'']\<rparr>)
   \<and> callTool sample_lib Stdio (sample_engine\<lparr>body_textContent := (\<lambda>p. Inr (Some ''Hello, world''))\<rparr>)
          ''puppeteer_get_text'' (Some []) \<lparr>browser = Some 1, page = None, calls = []\<rparr>
     = (Inr [Text ''Page text: Hello, world''],
        \<lparr>browser = Some 1, page = Some 2, calls = [CNewPage 1, CBodyText 2]\<rparr>)
   \<and> fst (callTool sample_lib Stdio sample_engine ''puppeteer_get_text'' (Some []) ready)
     = Inr [Text ''Page text: '']"
proof -
  let ?hello = "sample_engine\<lparr>body_textContent := (\<lambda>p. Inr (Some ''Hello, world''))\<rparr>"
  let ?fresh = "\<lparr>browser = Some 1, page = None, calls = []\<rparr>"
  have b: "browser ready = Some 1"
    and p: "page ready = Some 2 \<or> (page ready = None \<and> browser_newPage sample_engine 1 = Inr 2)"
    by (simp_all add: ready_def)
  have b2: "browser ?fresh = Some 1"
    and p2: "page ?fresh = Some 2 \<or> (page ?fresh = None \<and> browser_newPage ?hello 1 = Inr 2)"
    by (simp_all add: sample_engine_def)
  have q: "page_query sample_engine 2 ''#missing'' = Inr None"
    and t0: "body_textContent sample_engine 2 = Inr None"
    and t1: "body_textContent ?hello 2 = Inr (Some ''Hello, world'')"
    by (simp_all add: sample_engine_def)
  note first = getText_missing_element_and_body_text
    [OF b p, of "''#missing''" "[(''selector'', JStr ''#missing'')]" sample_lib Stdio "''x''",
      THEN conjunct1, THEN mp]
  note second = getText_missing_element_and_body_text
    [OF b2 p2, of "''x''" "[]" sample_lib Stdio "''Hello, world''", THEN conjunct2, THEN conjunct1, THEN mp]
  note third = getText_missing_element_and_body_text
    [OF b p, of "''x''" "[]" sample_lib Stdio "''x''", THEN conjunct2, THEN conjunct2, THEN mp]
  have r1: "fst (callTool sample_lib Stdio sample_engine ''puppeteer_get_text''
                   (Some [(''selector'', JStr ''#missing'')]) ready)
              = Inr [Text ''Error: Element not found: #missing'']"
    and c1: "new_calls ready (snd (callTool sample_lib Stdio sample_engine ''puppeteer_get_text''
                   (Some [(''selector'', JStr ''#missing'')]) ready)) = [CQuery 2 ''#missing'']"
    using first q by (simp_all add: ready_def)
  have r2: "fst (callTool sample_lib Stdio ?hello ''puppeteer_get_text'' (Some []) ?fresh)
              = Inr [Text ''Page text: Hello, world'']"
    and c2: "new_calls ?fresh (snd (callTool sample_lib Stdio ?hello ''puppeteer_get_text'' (Some []) ?fresh))
              = [CNewPage 1, CBodyText 2]"
    using second t1 by simp_all
  have r3: "fst (callTool sample_lib Stdio sample_engine ''puppeteer_get_text'' (Some []) ready)
              = Inr [Text ''Page text: '']"
    using third t0 by simp
  have s1: "snd (callTool sample_lib Stdio sample_engine ''puppeteer_get_text''
                   (Some [(''selector'', JStr ''#missing'')]) ready)
              = \<lparr>browser = Some 1, page = Some 2, calls = [CQuery 2 ''#missing'']\<rparr>"
    by (simp add: callTool_def dispatch_def getText_def GetTextSchema_def selector_given_def
          ensureBrowserAndPage_def ready_def logged_def sample_engine_def)
  have s2: "snd (callTool sample_lib Stdio ?hello ''puppeteer_get_text'' (Some []) ?fresh)
              = \<lparr>browser = Some 1, page = Some 2, calls = [CNewPage 1, CBodyText 2]\<rparr>"
    by (simp add: callTool_def dispatch_def getText_def GetTextSchema_def selector_given_def
          text_or_empty_def ensureBrowserAndPage_def logged_def sample_engine_def)
  show ?thesis
    using r1 r2 r3 s1 s2 by (simp add: prod_eq_iff)
qed

section \<open>Closing\<close>



section \<open>Launching\<close>

lemma with_viewport_headless [simp]: "lo_headless (with_viewport obj options) = lo_headless options"
  by (simp add: with_viewport_def split: option.splits)

lemma options_for_headless_default:
  assumes "Option.bind a (\<lambda>obj. map_of obj ''headless'') = None" and "options_for t a = Inr options"
  shows "lo_headless options = JBool True"
  using assms
  by (cases a) (auto simp: options_for_def launchOptions_def launchOptions_http_def
        split: transport.splits if_splits sum.splits)

text \<open>The engine's launch is only ever called with the \<open>options\<close> object built from the arguments.\<close>

lemma launch_with_calls:
  assumes "CLaunch options \<in> set (new_calls s (snd (launchBrowser_with mk e a s)))"
  shows "mk a = Inr options"
  using assms
  by (auto simp: launchBrowser_with_def Let_def logged_def new_calls_def
        split: option.splits sum.splits)

lemma launch_with_text:
  assumes "fst (launchBrowser_with mk e a s) = Inr envelope"
  shows "envelope = [Text (''Browser launched successfully in ''
                       @ (if truthy (Option.bind a (\<lambda>obj. map_of obj ''headless''))
                          then ''headless'' else ''headed'')
                       @ '' mode'')]"
  using assms
  by (auto simp: launchBrowser_with_def Let_def split: option.splits sum.splits)

lemma launchBrowser_with_success:
  assumes "mk a = Inr options"
    and "browser s = None \<or> (browser s = Some b0 \<and> browser_close e b0 = None)"
    and "puppeteer_launch e options = Inr b" and "browser_newPage e b = Inr p"
  shows "launchBrowser_with mk e a s =
           (Inr [Text (''Browser launched successfully in ''
                       @ (if truthy (Option.bind a (\<lambda>obj. map_of obj ''headless''))
                          then ''headless'' else ''headed'')
                       @ '' mode'')],
            \<lparr>browser = Some b, page = Some p,
             calls = calls s @ (case browser s of None \<Rightarrow> [] | Some old \<Rightarrow> [CClose old])
                       @ [CLaunch options, CNewPage b]\<rparr>)"
  using assms by (auto simp: launchBrowser_with_def Let_def logged_def)

text \<open>No run of \<open>launchBrowser\<close> that starts with a browser handle ends without one.\<close>

lemma launch_never_clears_browser:
  "browser s \<noteq> None \<Longrightarrow> browser (snd (launchBrowser_with mk e a s)) \<noteq> None"
  by (auto simp: launchBrowser_with_def Let_def logged_def split: option.splits sum.splits)

text \<open>Without an argument object, \<open>launchBrowser\<close> raises before it reaches the engine's launch.\<close>

lemma launch_without_argument_object:
  "browser s = None \<Longrightarrow>
     launchBrowser e None s = (Inl (cannot_read ''undefined'' ''headless''), s)"
  by (simp add: launchBrowser_def launchBrowser_with_def launchOptions_def)

text \<open>With an argument object and a host that is ready, \<open>options\<close> is built.\<close>

lemma options_for_built:
  "host_ready t \<Longrightarrow> \<exists>options. options_for t (Some obj) = Inr options"
  by (cases t)
    (auto simp: host_ready_def options_for_def launchOptions_def launchOptions_http_def
      split: sum.splits if_splits)

lemma launch_with_reaches_engine:
  assumes "mk a = Inr options"
    and "browser s = None \<or> (browser s = Some b0 \<and> browser_close e b0 = None)"
  shows "CLaunch options \<in> set (new_calls s (snd (launchBrowser_with mk e a s)))"
  using assms
  by (auto simp: launchBrowser_with_def Let_def logged_def new_calls_def split: sum.splits)

text \<open>
  Claim C10, as stated, covers every \<open>launch\<close> call without a \<open>headless\<close> argument. It
  fails where the call never reaches the engine's launch: with no argument object the
  read of \<open>args.headless\<close> raises a TypeError (after the open browser, if any, was
  closed), and the call also stops when the engine's close throws or when, in production
  mode, the lookup of the bundled browser's path throws. No launch is asked of the
  engine and the answer is an error text.
\<close>

theorem launch_without_arguments_counterexample:
  "callTool sample_lib Stdio sample_engine ''puppeteer_launch'' None initial
     = (Inr [Text (''Error: Cannot read properties of undefined (reading ''
                   @ [CHR 0x27] @ ''headless'' @ [CHR 0x27] @ '')'')],
        initial)
   \<and> callTool sample_lib (Http sample_env) sample_engine ''puppeteer_launch'' None ready
     = (Inr [Text (''Error: Cannot read properties of undefined (reading ''
                   @ [CHR 0x27] @ ''headless'' @ [CHR 0x27] @ '')'')],
        \<lparr>browser = Some 1, page = Some 2, calls = [CClose 1]\<rparr>)
   \<and> callTool sample_lib Stdio
        (sample_engine\<lparr>browser_close := (\<lambda>b. Some (ErrorObj ''Target closed''))\<rparr>)
        ''puppeteer_launch'' (Some []) ready
     = (Inr [Text ''Error: Target closed''],
        \<lparr>browser = Some 1, page = Some 2, calls = [CClose 1]\<rparr>)
   \<and> callTool sample_lib
        (Http (sample_env\<lparr>production := True,
                           chromium_executablePath := Inl (ErrorObj ''Chromium not found'')\<rparr>))
        sample_engine ''puppeteer_launch'' (Some []) initial
     = (Inr [Text ''Error: Chromium not found''], initial)"
  by (simp add: callTool_def dispatch_def launchBrowser_def launchBrowser_http_def
        launchBrowser_with_def launchOptions_def launchOptions_http_def cannot_read_def
        initial_def ready_def logged_def sample_engine_def sample_env_def)

text \<open>
  Claim C10, amended. Take a \<open>launch\<close> call, under either server, whose argument object
  has no \<open>headless\<close> field, where the engine closes the browser that was open (if any)
  and, in production mode, the lookup of the bundled browser's path returns. Then the
  engine is asked to launch, with an \<open>options\<close> object whose \<open>headless\<close> is \<open>true\<close>, and
  with no other. When that launch and the opening of the page succeed, the confirmation
  none the less reads \<open>Browser launched successfully in headed mode\<close> and the session
  holds the new handles; and no successful answer of such a call reads otherwise. The
  text follows the truthiness of the field as supplied, not the value handed to the
  engine.
\<close>

theorem launch_default_headless_reports_headed:
  assumes "map_of obj ''headless'' = None"
    and "host_ready t"
    and "browser s = None \<or> (browser s = Some b0 \<and> browser_close e b0 = None)"
  shows "\<exists>options.
           options_for t (Some obj) = Inr options
           \<and> lo_headless options = JBool True
           \<and> CLaunch options \<in> set (new_calls s (snd (callTool L t e ''puppeteer_launch'' (Some obj) s)))
           \<and> (\<forall>other. CLaunch other \<in> set (new_calls s (snd (callTool L t e ''puppeteer_launch'' (Some obj) s)))
                  \<longrightarrow> other = options)
           \<and> (\<forall>b p. puppeteer_launch e options = Inr b \<and> browser_newPage e b = Inr p \<longrightarrow>
                  callTool L t e ''puppeteer_launch'' (Some obj) s =
                    (Inr [Text ''Browser launched successfully in headed mode''],
                     \<lparr>browser = Some b, page = Some p,
                      calls = calls s @ (case browser s of None \<Rightarrow> [] | Some old \<Rightarrow> [CClose old])
                                @ [CLaunch options, CNewPage b]\<rparr>))
           \<and> (\<forall>envelope. fst (dispatch L t e ''puppeteer_launch'' (Some obj) s) = Inr envelope
                  \<longrightarrow> envelope = [Text ''Browser launched successfully in headed mode''])"
proof -
  from options_for_built [OF assms(2), of obj]
  obtain options where o: "options_for t (Some obj) = Inr options"
    by (elim exE)
  have h: "Option.bind (Some obj) (\<lambda>obj. map_of obj ''headless'') = None"
    using assms(1) by simp
  have hd: "lo_headless options = JBool True"
    by (rule options_for_headless_default [OF h o])
  have sc: "snd (callTool L t e ''puppeteer_launch'' (Some obj) s)
              = snd (launchBrowser_with (options_for t) e (Some obj) s)"
    by (simp only: snd_callTool dispatch_launch)
  have reach: "CLaunch options \<in> set (new_calls s (snd (callTool L t e ''puppeteer_launch'' (Some obj) s)))"
    unfolding sc
    by (rule launch_with_reaches_engine [where mk = "options_for t" and a = "Some obj", OF o assms(3)])
  show ?thesis
  proof (intro exI [of _ options] conjI allI impI)
    show "options_for t (Some obj) = Inr options"
      by (rule o)
    show "lo_headless options = JBool True"
      by (rule hd)
    show "CLaunch options \<in> set (new_calls s (snd (callTool L t e ''puppeteer_launch'' (Some obj) s)))"
      by (rule reach)
  next
    fix other
    assume "CLaunch other \<in> set (new_calls s (snd (callTool L t e ''puppeteer_launch'' (Some obj) s)))"
    then have "options_for t (Some obj) = Inr other"
      unfolding sc by (rule launch_with_calls)
    with o show "other = options"
      by simp
  next
    fix b p
    assume l: "puppeteer_launch e options = Inr b \<and> browser_newPage e b = Inr p"
    have "launchBrowser_with (options_for t) e (Some obj) s =
            (Inr [Text (''Browser launched successfully in ''
                       @ (if truthy (Option.bind (Some obj) (\<lambda>obj. map_of obj ''headless''))
                          then ''headless'' else ''headed'')
                       @ '' mode'')],
             \<lparr>browser = Some b, page = Some p,
              calls = calls s @ (case browser s of None \<Rightarrow> [] | Some old \<Rightarrow> [CClose old])
                        @ [CLaunch options, CNewPage b]\<rparr>)"
      by (rule launchBrowser_with_success
            [where mk = "options_for t" and a = "Some obj", OF o assms(3) l [THEN conjunct1]
              l [THEN conjunct2]])
    then have "dispatch L t e ''puppeteer_launch'' (Some obj) s =
            (Inr [Text ''Browser launched successfully in headed mode''],
             \<lparr>browser = Some b, page = Some p,
              calls = calls s @ (case browser s of None \<Rightarrow> [] | Some old \<Rightarrow> [CClose old])
                        @ [CLaunch options, CNewPage b]\<rparr>)"
      unfolding dispatch_launch h by simp
    then show "callTool L t e ''puppeteer_launch'' (Some obj) s =
                    (Inr [Text ''Browser launched successfully in headed mode''],
                     \<lparr>browser = Some b, page = Some p,
                      calls = calls s @ (case browser s of None \<Rightarrow> [] | Some old \<Rightarrow> [CClose old])
                                @ [CLaunch options, CNewPage b]\<rparr>)"
      unfolding callTool_def by simp
  next
    fix envelope
    assume "fst (dispatch L t e ''puppeteer_launch'' (Some obj) s) = Inr envelope"
    then have "fst (launchBrowser_with (options_for t) e (Some obj) s) = Inr envelope"
      by (simp only: dispatch_launch)
    from launch_with_text [OF this] show "envelope = [Text ''Browser launched successfully in headed mode'']"
      unfolding h by simp
  qed
qed

theorem launch_default_headless_reports_headed_witness:
  "callTool sample_lib Stdio sample_engine ''puppeteer_launch'' (Some []) initial =
     (Inr [Text ''Browser launched successfully in headed mode''],
      \<lparr>browser = Some 1, page = Some 2,
       calls = [CLaunch \<lparr>lo_headless = JBool True, lo_defaultViewport = None, lo_args = None,
                         lo_executablePath = None\<rparr>,
                CNewPage 1]\<rparr>)
   \<and> callTool sample_lib (Http sample_env) sample_engine ''puppeteer_launch''
        (Some [(''viewport'', JObj [(''width'', JNum 800)])]) ready =
     (Inr [Text ''Browser launched successfully in headed mode''],
      \<lparr>browser = Some 1, page = Some 2,
       calls = [CClose 1,
                CLaunch \<lparr>lo_headless = JBool True,
                         lo_defaultViewport = Some (JObj [(''width'', JNum 800), (''height'', JNum 720)]),
                         lo_args = Some [''--no-sandbox'', ''--disable-setuid-sandbox''],
                         lo_executablePath = Some ''/usr/bin/google-chrome''\<rparr>,
                CNewPage 1]\<rparr>)"
proof -
  let ?obj2 = "[(''viewport'', JObj [(''width'', JNum 800)])]"
  let ?o1 = "\<lparr>lo_headless = JBool True, lo_defaultViewport = None, lo_args = None,
              lo_executablePath = None\<rparr>"
  let ?o2 = "\<lparr>lo_headless = JBool True,
              lo_defaultViewport = Some (JObj [(''width'', JNum 800), (''height'', JNum 720)]),
              lo_args = Some [''--no-sandbox'', ''--disable-setuid-sandbox''],
              lo_executablePath = Some ''/usr/bin/google-chrome''\<rparr>"
  have h1: "map_of ([] :: (string \<times> json) list) ''headless'' = None"
    and h2: "map_of ?obj2 ''headless'' = None"
    by simp_all
  have r1: "host_ready Stdio" and r2: "host_ready (Http sample_env)"
    by (simp_all add: host_ready_def sample_env_def)
  have c1: "browser initial = None \<or> (browser initial = Some 1 \<and> browser_close sample_engine 1 = None)"
    and c2: "browser ready = None \<or> (browser ready = Some 1 \<and> browser_close sample_engine 1 = None)"
    by (simp_all add: initial_def ready_def sample_engine_def)
  have o1: "options_for Stdio (Some []) = Inr ?o1"
    by (simp add: options_for_def launchOptions_def with_viewport_def)
  have o2: "options_for (Http sample_env) (Some ?obj2) = Inr ?o2"
    by (simp add: options_for_def launchOptions_http_def with_viewport_def sample_env_def chromePaths_def)
  have l: "puppeteer_launch sample_engine options = Inr 1 \<and> browser_newPage sample_engine 1 = Inr 2"
    for options
    by (simp add: sample_engine_def)
  from launch_default_headless_reports_headed [OF h1 r1 c1, of sample_lib]
  obtain options1 where "options_for Stdio (Some []) = Inr options1"
    and "\<forall>b p. puppeteer_launch sample_engine options1 = Inr b \<and> browser_newPage sample_engine b = Inr p \<longrightarrow>
           callTool sample_lib Stdio sample_engine ''puppeteer_launch'' (Some []) initial =
             (Inr [Text ''Browser launched successfully in headed mode''],
              \<lparr>browser = Some b, page = Some p,
               calls = calls initial @ (case browser initial of None \<Rightarrow> [] | Some old \<Rightarrow> [CClose old])
                         @ [CLaunch options1, CNewPage b]\<rparr>)"
    by auto
  with o1 l [of ?o1] have first:
    "callTool sample_lib Stdio sample_engine ''puppeteer_launch'' (Some []) initial =
       (Inr [Text ''Browser launched successfully in headed mode''],
        \<lparr>browser = Some 1, page = Some 2, calls = [CLaunch ?o1, CNewPage 1]\<rparr>)"
    by (simp add: initial_def)
  from launch_default_headless_reports_headed [OF h2 r2 c2, of sample_lib]
  obtain options2 where "options_for (Http sample_env) (Some ?obj2) = Inr options2"
    and "\<forall>b p. puppeteer_launch sample_engine options2 = Inr b \<and> browser_newPage sample_engine b = Inr p \<longrightarrow>
           callTool sample_lib (Http sample_env) sample_engine ''puppeteer_launch'' (Some ?obj2) ready =
             (Inr [Text ''Browser launched successfully in headed mode''],
              \<lparr>browser = Some b, page = Some p,
               calls = calls ready @ (case browser ready of None \<Rightarrow> [] | Some old \<Rightarrow> [CClose old])
                         @ [CLaunch options2, CNewPage b]\<rparr>)"
    by auto
  with o2 l [of ?o2] have second:
    "callTool sample_lib (Http sample_env) sample_engine ''puppeteer_launch'' (Some ?obj2) ready =
       (Inr [Text ''Browser launched successfully in headed mode''],
        \<lparr>browser = Some 1, page = Some 2, calls = [CClose 1, CLaunch ?o2, CNewPage 1]\<rparr>)"
    by (simp add: ready_def)
  from first second show ?thesis
    by simp
qed

text \<open>
  Claim C2 does not hold of the code. \<open>launchBrowser\<close> closes the open browser and keeps
  both handles; when the engine's launch then throws, the session still holds the handles
  of the closed browser. A \<open>get_text\<close> call right after passes \<open>ensureBrowserAndPage\<close>,
  asks the engine for the text of the old page and reports the engine's error, not the
  error for a browser that was not launched. \<open>closeBrowser\<close> clears both handles after
  the same engine call.
\<close>

theorem failed_relaunch_keeps_closed_handles:
  "callTool sample_lib Stdio failing_engine ''puppeteer_launch'' (Some []) ready
   = (Inr [Text ''Error: Failed to launch the browser process''],
      \<lparr>browser = Some 1, page = Some 2,
       calls = [CClose 1,
                CLaunch \<lparr>lo_headless = JBool True, lo_defaultViewport = None, lo_args = None,
                         lo_executablePath = None\<rparr>]\<rparr>)
   \<and> callTool sample_lib Stdio failing_engine ''puppeteer_get_text'' (Some [])
       (snd (callTool sample_lib Stdio failing_engine ''puppeteer_launch'' (Some []) ready))
   = (Inr [Text ''Error: Target closed''],
      \<lparr>browser = Some 1, page = Some 2,
       calls = [CClose 1,
                CLaunch \<lparr>lo_headless = JBool True, lo_defaultViewport = None, lo_args = None,
                         lo_executablePath = None\<rparr>,
                CBodyText 2]\<rparr>)
   \<and> callTool sample_lib (Http sample_env) failing_engine ''puppeteer_get_text'' (Some [])
       (snd (callTool sample_lib (Http sample_env) failing_engine ''puppeteer_launch'' (Some []) ready))
   = (Inr [Text ''Error: Target closed''],
      \<lparr>browser = Some 1, page = Some 2,
       calls = [CClose 1,
                CLaunch \<lparr>lo_headless = JBool True, lo_defaultViewport = None,
                         lo_args = Some [''--no-sandbox'', ''--disable-setuid-sandbox''],
                         lo_executablePath = Some ''/usr/bin/google-chrome''\<rparr>,
                CBodyText 2]\<rparr>)"
  by (simp add: callTool_def dispatch_def launchBrowser_def launchBrowser_http_def
        launchBrowser_with_def launchOptions_def launchOptions_http_def with_viewport_def
        getText_def GetTextSchema_def selector_given_def ensureBrowserAndPage_def
        ready_def logged_def failing_engine_def sample_env_def chromePaths_def)

section \<open>The quality of a screenshot\<close>

text \<open>What \<open>screenshot\<close> hands to the engine as \<open>quality\<close>.\<close>

lemma screenshotOptions_quality:
  "so_quality (screenshotOptions v) =
     (if sa_format v = ''jpeg'' \<and> sa_quality v \<noteq> None \<and> sa_quality v \<noteq> Some 0
      then sa_quality v else None)"
  by (cases "sa_quality v") (simp_all add: screenshotOptions_def)

text \<open>
  Claim C1 does not hold of the code. The schema accepts a quality of 0, and the source
  sets \<open>options.quality\<close> under \<open>if (format === 'jpeg' && quality)\<close>, where 0 is falsy: a
  \<open>screenshot\<close> call with format \<open>jpeg\<close> and quality 0 reaches the engine with no quality,
  under both servers, while quality 1 is handed on.
\<close>

theorem screenshot_jpeg_quality_zero_not_forwarded:
  "callTool sample_lib Stdio sample_engine ''puppeteer_screenshot''
     (Some [(''format'', JStr ''jpeg''), (''quality'', JNum 0)]) ready
   = (Inr [Text ''Screenshot taken (jpeg, fullPage: false)'', Image ''iVBORw=='' ''image/jpeg''],
      \<lparr>browser = Some 1, page = Some 2,
       calls = [CScreenshot 2 \<lparr>so_fullPage = False, so_type = ''jpeg'', so_quality = None\<rparr>]\<rparr>)
   \<and> callTool sample_lib (Http sample_env) sample_engine ''puppeteer_screenshot''
     (Some [(''format'', JStr ''jpeg''), (''quality'', JNum 0)]) ready
   = (Inr [Text ''Screenshot taken (jpeg, fullPage: false)'', Image ''iVBORw=='' ''image/jpeg''],
      \<lparr>browser = Some 1, page = Some 2,
       calls = [CScreenshot 2 \<lparr>so_fullPage = False, so_type = ''jpeg'', so_quality = None\<rparr>]\<rparr>)
   \<and> callTool sample_lib Stdio sample_engine ''puppeteer_screenshot''
     (Some [(''format'', JStr ''jpeg''), (''quality'', JNum 1)]) ready
   = (Inr [Text ''Screenshot taken (jpeg, fullPage: false)'', Image ''iVBORw=='' ''image/jpeg''],
      \<lparr>browser = Some 1, page = Some 2,
       calls = [CScreenshot 2 \<lparr>so_fullPage = False, so_type = ''jpeg'', so_quality = Some 1\<rparr>]\<rparr>)"
  by (simp add: callTool_def dispatch_def screenshot_def ScreenshotSchema_def screenshotOptions_def
        ensureBrowserAndPage_def ready_def logged_def sample_engine_def sample_lib_def show_bool_def)

end
